theory Spec2Isabelle
  imports Complex_Main "HOL-Library.AList"
begin

section \<open>The edge gateway of Gateway\_Rasp.py\<close>

text \<open>
  A shallow embedding of the class \<open>EdgeGateway\<close>: the in-memory registry
  \<open>self.devices\<close>, the three SQLite tables, the messages handed to the MQTT client,
  the tasks handed to asyncio and the records handed to the logger are fields of one
  state record; every handler is a function from state to state (the registration
  handler gives no state for a payload that would put a key that is not a string into
  the registry).

  What the handlers read from outside is a parameter:
  \<^item> every call of \<open>datetime.now()\<close> is a parameter of its own (two calls in one
    handler may return different instants);
  \<^item> every SQLite operation takes a \<open>fault\<close>: \<open>None\<close> when sqlite3 carries the
    operation out, \<open>Some e\<close> when it raises an exception whose text is \<open>e\<close>
    (the \<open>except\<close> branch of the source then logs and carries on);
  \<^item> \<open>self.mqtt\_client.publish\<close> takes a \<open>pub_fault\<close> in the same way: \<open>None\<close> when
    the call returns, \<open>Some e\<close> when the client raises (it refuses a topic with a
    wildcard character, for one);
  \<^item> what \<open>self.config.get('gateway', 'id', fallback=...)\<close> does is a field of the
    state: the option is not set, the lookup returns a string, or it raises (a value
    with a bare percent sign makes the interpolation fail).
\<close>

subsection \<open>Time\<close>

text \<open>
  A naive \<open>datetime\<close> is the number of microseconds since \<open>datetime.min\<close>
  (0001-01-01T00:00:00); \<open>datetime.max\<close> is 9999-12-31T23:59:59.999999, the last
  microsecond of day 3652059. A \<open>timedelta\<close> is a number of microseconds.
  The tables keep instants as \<open>isoformat()\<close> text; that text is zero padded, so
  SQLite's text comparison orders it as the instants are ordered, and the model keeps
  the instant itself.
\<close>

type_synonym datetime = int
type_synonym timedelta = int

definition datetime_max :: datetime where
  "datetime_max = 3652059 * 86400000000 - 1"

definition timedelta_days :: "int \<Rightarrow> timedelta option" where
  \<comment> \<open>\<open>timedelta(days=n)\<close>: OverflowError when the magnitude exceeds 999999999 days\<close>
  "timedelta_days n =
     (if - 999999999 \<le> n \<and> n \<le> 999999999 then Some (n * 86400000000) else None)"

definition timedelta_minutes :: "int \<Rightarrow> timedelta" where
  "timedelta_minutes n = n * 60000000"

definition datetime_sub :: "datetime \<Rightarrow> timedelta \<Rightarrow> datetime option" where
  \<comment> \<open>\<open>datetime - timedelta\<close>: OverflowError when the result is out of range\<close>
  "datetime_sub t d =
     (let r = t - d in if 0 \<le> r \<and> r \<le> datetime_max then Some r else None)"

subsection \<open>JSON values and payloads\<close>

text \<open>
  What \<open>json.loads\<close> returns: \<open>JNull\<close> is Python's \<open>None\<close>. A float is kept as
  the real number it denotes (the non-standard literals NaN and Infinity are left out).
\<close>

datatype json =
    JNull
  | JBool bool
  | JInt int
  | JFloat real
  | JStr string
  | JArr "json list"
  | JObj "(string \<times> json) list"

fun truthy :: "json \<Rightarrow> bool" where
  "truthy JNull = False"
| "truthy (JBool b) = b"
| "truthy (JInt i) = (i \<noteq> 0)"
| "truthy (JFloat r) = (r \<noteq> 0)"
| "truthy (JStr s) = (s \<noteq> [])"
| "truthy (JArr xs) = (xs \<noteq> [])"
| "truthy (JObj kvs) = (kvs \<noteq> [])"

fun hashable :: "json \<Rightarrow> bool" where
  "hashable (JArr xs) = False"
| "hashable (JObj kvs) = False"
| "hashable v = True"

fun bindable :: "json \<Rightarrow> bool" where
  \<comment> \<open>the values sqlite3 accepts as a statement parameter: None, int (64 bit), float, str\<close>
  "bindable (JArr xs) = False"
| "bindable (JObj kvs) = False"
| "bindable (JInt i) = (- (2 ^ 63) \<le> i \<and> i < 2 ^ 63)"
| "bindable v = True"

text \<open>
  A registration or telemetry payload is any JSON object. A status payload is taken
  with string members: its \<open>device_id\<close> and \<open>status\<close> go into fields that
  \<open>DeviceInfo\<close> declares as \<open>str\<close>.
\<close>

type_synonym payload = "string \<rightharpoonup> json"
type_synonym str_payload = "string \<rightharpoonup> string"

definition py_get :: "payload \<Rightarrow> string \<Rightarrow> json" where
  \<comment> \<open>\<open>payload.get(key)\<close>\<close>
  "py_get p k = (case p k of None \<Rightarrow> JNull | Some v \<Rightarrow> v)"

definition py_get_default :: "payload \<Rightarrow> string \<Rightarrow> string \<Rightarrow> json" where
  \<comment> \<open>\<open>payload.get(key, default)\<close> with a string default: a null member is returned as it is\<close>
  "py_get_default p k d = (case p k of None \<Rightarrow> JStr d | Some v \<Rightarrow> v)"

definition get_default :: "str_payload \<Rightarrow> string \<Rightarrow> string \<Rightarrow> string" where
  \<comment> \<open>\<open>payload.get(key, default)\<close>\<close>
  "get_default p k d = (case p k of None \<Rightarrow> d | Some v \<Rightarrow> v)"

subsection \<open>Values in objects and in table cells\<close>

text \<open>
  A column of a table has an affinity, and SQLite converts a bound value to it: a TEXT
  column turns a number into its text, an INTEGER or REAL column turns the text of a
  number into the number, a REAL column turns an integer into a float. The model does
  not compute these conversions. A value is
  \<^item> \<open>Py v\<close>: the value \<open>v\<close> itself;
  \<^item> \<open>Col a v\<close>: what a column of affinity \<open>a\<close> holds, and gives back when read,
    after \<open>v\<close> was bound to it, where the conversion can change \<open>v\<close>;
  \<^item> \<open>Dump v\<close>: the text \<open>json.dumps(v)\<close>.
\<close>

datatype affinity = TEXT | NUMERIC | INTEGER | REAL

datatype pyval = Py json | Col affinity json | Dump json

fun column :: "affinity \<Rightarrow> json \<Rightarrow> pyval" where
  \<comment> \<open>kept as bound: NULL, text in a TEXT column, an integer in an INTEGER column, a
     float in a REAL column\<close>
  "column a JNull = Py JNull"
| "column TEXT (JStr t) = Py (JStr t)"
| "column INTEGER (JInt i) = Py (JInt i)"
| "column REAL (JFloat r) = Py (JFloat r)"
| "column a v = Col a v"

fun store :: "affinity \<Rightarrow> pyval \<Rightarrow> pyval" where
  \<comment> \<open>the cell for a value of an object; a value read from a cell goes back as it is\<close>
  "store a (Py v) = column a v"
| "store a c = c"

fun dumped :: "pyval \<Rightarrow> pyval" where
  \<comment> \<open>\<open>json.dumps(x) if x else None\<close>\<close>
  "dumped (Py v) = (if truthy v then Dump v else Py JNull)"
| "dumped c = c"

fun bindable_val :: "pyval \<Rightarrow> bool" where
  \<comment> \<open>a value read from a cell, or dumped, is a str or None\<close>
  "bindable_val (Py v) = bindable v"
| "bindable_val c = True"

subsection \<open>Data classes, rows, messages\<close>

text \<open>
  \<open>device_id\<close> is a string: the registry is declared \<open>Dict[str, DeviceInfo]\<close> and
  the table \<open>devices\<close> is keyed by the text of the id. The five members taken from
  the payload hold whatever the payload gave. A row of the table \<open>devices\<close> has the
  same columns and is kept as such a record, its five members as the TEXT columns hold
  them.
\<close>

record DeviceInfo =
  device_id :: string
  device_type :: pyval
  mac_address :: pyval
  ip_address :: pyval
  firmware_version :: pyval
  capabilities :: pyval
  last_seen :: "datetime option"
  status :: string
  registration_time :: "datetime option"

text \<open>
  \<open>sender_id\<close> is the field \<open>device_id\<close> of \<open>TelemetryData\<close> (the name is taken
  by \<open>DeviceInfo\<close>). The fields hold what the payload gave, \<open>Py JNull\<close> for
  \<open>None\<close>. A row of the table \<open>telemetry\<close> is such a record too, its fields as the
  columns hold them; its \<open>id\<close> is its position.
\<close>

record TelemetryData =
  sender_id :: pyval
  timestamp :: datetime
  temperature :: pyval
  humidity :: pyval
  wifi_rssi :: pyval
  free_heap :: pyval
  uptime :: pyval
  custom_data :: pyval

text \<open>A row of the table \<open>commands\<close> (its \<open>id\<close> is the position in the table).\<close>

record CommandRow =
  cmd_device_id :: string
  cmd_command :: string
  cmd_parameters :: string
  cmd_status :: string
  cmd_created_at :: datetime
  cmd_executed_at :: "datetime option"

text \<open>
  The body of the message published on \<open>devices/{device_id}/commands\<close>;
  \<open>issued_at\<close> is its member \<open>timestamp\<close>.
\<close>

record WelcomeMsg =
  command :: string
  gateway_id :: string
  issued_at :: datetime

text \<open>
  The envelope \<open>forward_to_cloud\<close> builds, with its members \<open>gateway_id\<close>,
  \<open>message_type\<close>, \<open>timestamp\<close> and \<open>data\<close>.
\<close>

record CloudPayload =
  cp_gateway_id :: string
  cp_message_type :: string
  cp_timestamp :: datetime
  cp_data :: payload

datatype level = DEBUG | INFO | WARNING | ERROR

datatype exn =
    KeyError string
  | UnhashableType
  | OverflowError
  | RuntimeError string
  | SqliteError string
  | BindingError
  | InterpolationError string
  | ValueError string

text \<open>
  \<open>Log l m\<close> is \<open>logger.l(m)\<close>; \<open>LogExc l m e\<close> is \<open>logger.l(f"m{e}")\<close> in an
  \<open>except Exception as e\<close> branch.
\<close>

datatype log_record = Log level string | LogExc level string exn

subsection \<open>The gateway\<close>

text \<open>
  \<open>devices\<close> is the dict \<open>self.devices\<close>, in insertion order; \<open>cloud_client\<close> says
  whether \<open>self.cloud_client\<close> is set. \<open>db_devices\<close>, \<open>db_telemetry\<close> and
  \<open>db_commands\<close> are the tables in rowid order (\<open>devices\<close> keyed by its primary key).
  \<open>published\<close> are the calls of \<open>self.mqtt\_client.publish\<close> that returned (topic and body),
  \<open>cloud_tasks\<close> the calls of \<open>asyncio.create\_task\<close>, \<open>logged\<close> the records the
  logger emitted. The handlers run as callbacks of the MQTT client, so
  \<open>self.mqtt\_client\<close> is set whenever one runs. \<open>conf_gateway_id\<close> is what the
  lookup of the option \<open>id\<close> in the section \<open>gateway\<close> does, \<open>conf_retention_days\<close>
  the integer that \<open>database.retention_days\<close> is set to, if it is.
\<close>

datatype conf_lookup = NotSet | Returns string | Raises string

record EdgeGateway =
  conf_gateway_id :: conf_lookup
  conf_retention_days :: "int option"
  devices :: "(string \<times> DeviceInfo) list"
  cloud_client :: bool
  db_devices :: "(string \<times> DeviceInfo) list"
  db_telemetry :: "TelemetryData list"
  db_commands :: "CommandRow list"
  published :: "(string \<times> WelcomeMsg) list"
  cloud_tasks :: "CloudPayload list"
  logged :: "log_record list"

definition log_msg :: "level \<Rightarrow> string \<Rightarrow> EdgeGateway \<Rightarrow> EdgeGateway" where
  \<comment> \<open>\<open>logging.basicConfig(level=logging.INFO)\<close>: debug records are dropped\<close>
  "log_msg l m s = (if l = DEBUG then s else s\<lparr>logged := logged s @ [Log l m]\<rparr>)"

definition log_exc :: "level \<Rightarrow> string \<Rightarrow> exn \<Rightarrow> EdgeGateway \<Rightarrow> EdgeGateway" where
  "log_exc l m e s = (if l = DEBUG then s else s\<lparr>logged := logged s @ [LogExc l m e]\<rparr>)"

fun str_nat :: "nat \<Rightarrow> string" where
  \<comment> \<open>\<open>str(n)\<close> of a non-negative int\<close>
  "str_nat n =
     (if n < 10 then [''0123456789'' ! n]
      else str_nat (n div 10) @ [''0123456789'' ! (n mod 10)])"

definition gateway_id_of :: "EdgeGateway \<Rightarrow> exn + string" where
  \<comment> \<open>\<open>self.config.get('gateway', 'id', fallback='gateway_001')\<close>\<close>
  "gateway_id_of s =
     (case conf_gateway_id s of
        NotSet \<Rightarrow> Inr ''gateway_001''
      | Returns g \<Rightarrow> Inr g
      | Raises e \<Rightarrow> Inl (InterpolationError e))"

subsection \<open>Persistence\<close>

text \<open>
  sqlite3 refuses to bind a list or a dict (and an integer beyond 64 bits): the INSERT
  raises, the \<open>except\<close> branch logs, no row is written.
\<close>

definition device_row :: "DeviceInfo \<Rightarrow> DeviceInfo" where
  \<comment> \<open>the row of the table \<open>devices\<close> for an object: five TEXT columns\<close>
  "device_row device =
     device\<lparr>device_type := store TEXT (device_type device),
            mac_address := store TEXT (mac_address device),
            ip_address := store TEXT (ip_address device),
            firmware_version := store TEXT (firmware_version device),
            capabilities := store TEXT (capabilities device)\<rparr>"

definition device_bindable :: "DeviceInfo \<Rightarrow> bool" where
  "device_bindable device =
     list_all bindable_val
       [device_type device, mac_address device, ip_address device,
        firmware_version device, capabilities device]"

definition save_device :: "string option \<Rightarrow> DeviceInfo \<Rightarrow> EdgeGateway \<Rightarrow> EdgeGateway" where
  \<comment> \<open>INSERT OR REPLACE: the row with this primary key goes, the new row is appended\<close>
  "save_device fault device s =
     (case fault of
        Some e \<Rightarrow> log_exc ERROR ''Error saving device: '' (SqliteError e) s
      | None \<Rightarrow>
          if device_bindable device
          then s\<lparr>db_devices :=
                 AList.delete (device_id device) (db_devices s) @
                 [(device_id device, device_row device)]\<rparr>
          else log_exc ERROR ''Error saving device: '' BindingError s)"

definition telemetry_row :: "TelemetryData \<Rightarrow> TelemetryData" where
  \<comment> \<open>the row of the table \<open>telemetry\<close> for an object, column by column\<close>
  "telemetry_row t =
     \<lparr>sender_id = store TEXT (sender_id t), timestamp = timestamp t,
      temperature = store REAL (temperature t),
      humidity = store REAL (humidity t),
      wifi_rssi = store INTEGER (wifi_rssi t),
      free_heap = store INTEGER (free_heap t),
      uptime = store INTEGER (uptime t),
      custom_data = dumped (custom_data t)\<rparr>"

definition save_telemetry ::
  "string option \<Rightarrow> TelemetryData \<Rightarrow> EdgeGateway \<Rightarrow> EdgeGateway" where
  "save_telemetry fault t s =
     (case fault of
        Some e \<Rightarrow> log_exc ERROR ''Error saving telemetry: '' (SqliteError e) s
      | None \<Rightarrow>
          if list_all bindable_val
               [sender_id t, temperature t, humidity t, wifi_rssi t, free_heap t, uptime t]
          then s\<lparr>db_telemetry := db_telemetry s @ [telemetry_row t]\<rparr>
          else log_exc ERROR ''Error saving telemetry: '' BindingError s)"

definition update_device_status ::
  "datetime \<Rightarrow> string option \<Rightarrow> string \<Rightarrow> string \<Rightarrow> EdgeGateway \<Rightarrow> EdgeGateway" where
  \<comment> \<open>UPDATE devices SET status = ?, last\_seen = now WHERE device\_id = ?\<close>
  "update_device_status now fault dev_id st s =
     (case fault of
        Some e \<Rightarrow> log_exc ERROR ''Error updating device status: '' (SqliteError e) s
      | None \<Rightarrow>
          s\<lparr>db_devices :=
              AList.map_entry dev_id (\<lambda>r. r\<lparr>status := st, last_seen := Some now\<rparr>)
                (db_devices s)\<rparr>)"

definition load_devices :: "string option \<Rightarrow> EdgeGateway \<Rightarrow> EdgeGateway" where
  "load_devices fault s =
     (case fault of
        Some e \<Rightarrow> log_exc ERROR ''Failed to load devices: '' (SqliteError e) s
      | None \<Rightarrow>
          (let ds = fold (\<lambda>row m. AList.update (device_id (snd row)) (snd row) m)
                      (db_devices s) (devices s)
           in log_msg INFO (''Loaded '' @ str_nat (length ds) @ '' devices from database'')
                (s\<lparr>devices := ds\<rparr>)))"

definition init :: "conf_lookup \<Rightarrow> int option \<Rightarrow> (string \<times> DeviceInfo) list \<Rightarrow>
    TelemetryData list \<Rightarrow> CommandRow list \<Rightarrow> EdgeGateway" where
  \<comment> \<open>\<open>\_\_init\_\_\<close> over a database file that opens: the tables exist or are created empty\<close>
  "init gid days tdev ttel tcmd =
     load_devices None
       (log_msg INFO ''Database initialized successfully''
          \<lparr>conf_gateway_id = gid, conf_retention_days = days, devices = [],
           cloud_client = False, db_devices = tdev, db_telemetry = ttel,
           db_commands = tcmd, published = [], cloud_tasks = [], logged = []\<rparr>)"

subsection \<open>Cloud relay\<close>

definition forward_to_cloud ::
  "datetime \<Rightarrow> bool \<Rightarrow> string \<Rightarrow> payload \<Rightarrow> EdgeGateway \<Rightarrow> EdgeGateway" where
  \<comment> \<open>\<open>running_loop\<close>: the calling thread runs an event loop; else create\_task raises\<close>
  "forward_to_cloud now running_loop message_type p s =
     (if \<not> cloud_client s then s
      else
        case gateway_id_of s of
          Inl e \<Rightarrow> log_exc ERROR ''Error forwarding to cloud: '' e s
        | Inr g \<Rightarrow>
            let cloud_payload =
                  \<lparr>cp_gateway_id = g, cp_message_type = message_type,
                   cp_timestamp = now, cp_data = p\<rparr>
            in if running_loop then s\<lparr>cloud_tasks := cloud_tasks s @ [cloud_payload]\<rparr>
               else log_exc ERROR ''Error forwarding to cloud: ''
                      (RuntimeError ''no running event loop'') s)"

subsection \<open>Message handlers\<close>

definition new_device :: "datetime \<Rightarrow> datetime \<Rightarrow> string \<Rightarrow> payload \<Rightarrow> DeviceInfo" where
  "new_device t_seen t_reg dev_id p =
     \<lparr>device_id = dev_id,
      device_type = Py (py_get_default p ''device_type'' ''unknown''),
      mac_address = Py (py_get_default p ''mac_address'' []),
      ip_address = Py (py_get_default p ''ip_address'' []),
      firmware_version = Py (py_get_default p ''firmware_version'' []),
      capabilities = Py (py_get_default p ''capabilities'' []),
      last_seen = Some t_seen,
      status = ''online'',
      registration_time = Some t_reg\<rparr>"

definition commands_topic :: "string \<Rightarrow> string" where
  "commands_topic dev_id = ''devices/'' @ dev_id @ ''/commands''"

definition register_device ::
  "datetime \<Rightarrow> datetime \<Rightarrow> datetime \<Rightarrow> string option \<Rightarrow> string option \<Rightarrow> string \<Rightarrow>
    payload \<Rightarrow> EdgeGateway \<Rightarrow> EdgeGateway" where
  \<comment> \<open>the body of the handler once \<open>payload['device_id']\<close> is the string \<open>dev_id\<close>\<close>
  "register_device t_seen t_reg t_msg fault pub_fault dev_id p s =
     (let device = new_device t_seen t_reg dev_id p;
          s1 = save_device fault device s;
          s2 = s1\<lparr>devices := AList.update dev_id device (devices s1)\<rparr>;
          s3 = log_msg INFO (''Registered new device: '' @ dev_id) s2
      in case gateway_id_of s3 of
           Inl e \<Rightarrow> log_exc ERROR ''Error handling device registration: '' e s3
         | Inr g \<Rightarrow>
             (case pub_fault of
                Some e \<Rightarrow>
                  log_exc ERROR ''Error handling device registration: '' (ValueError e) s3
              | None \<Rightarrow>
                  s3\<lparr>published := published s3 @
                       [(commands_topic dev_id,
                         \<lparr>command = ''registration_confirmed'', gateway_id = g,
                          issued_at = t_msg\<rparr>)]\<rparr>))"

definition register_unhashable :: "string option \<Rightarrow> EdgeGateway \<Rightarrow> EdgeGateway" where
  \<comment> \<open>\<open>payload['device_id']\<close> is a list or a dict: \<open>save_device\<close> cannot bind it and logs,
     then \<open>self.devices[device_id] = device\<close> raises TypeError, which the handler logs\<close>
  "register_unhashable fault s =
     log_exc ERROR ''Error handling device registration: '' UnhashableType
       (log_exc ERROR ''Error saving device: ''
          (case fault of Some e \<Rightarrow> SqliteError e | None \<Rightarrow> BindingError) s)"

text \<open>
  A \<open>device_id\<close> that is a number, a boolean or null would become a key of the
  registry that is not a string, which the declared type of the registry excludes: the
  model has no state for it and gives \<open>None\<close>.
\<close>

definition handle_device_registration ::
  "datetime \<Rightarrow> datetime \<Rightarrow> datetime \<Rightarrow> string option \<Rightarrow> string option \<Rightarrow> payload \<Rightarrow>
    EdgeGateway \<Rightarrow> EdgeGateway option" where
  "handle_device_registration t_seen t_reg t_msg fault pub_fault p s =
     (case p ''device_id'' of
        None \<Rightarrow>
          Some (log_exc ERROR ''Error handling device registration: ''
                  (KeyError ''device_id'') s)
      | Some (JStr dev_id) \<Rightarrow>
          Some (register_device t_seen t_reg t_msg fault pub_fault dev_id p s)
      | Some (JArr xs) \<Rightarrow> Some (register_unhashable fault s)
      | Some (JObj kvs) \<Rightarrow> Some (register_unhashable fault s)
      | Some v \<Rightarrow> None)"

definition touch_online :: "datetime \<Rightarrow> json \<Rightarrow> EdgeGateway \<Rightarrow> EdgeGateway" where
  \<comment> \<open>\<open>if device\_id in self.devices:\<close> set last\_seen and status; the keys are strings\<close>
  "touch_online now v s =
     (case v of
        JStr d \<Rightarrow>
          if d \<in> fst ` set (devices s)
          then s\<lparr>devices :=
                 AList.map_entry d (\<lambda>dev. dev\<lparr>last_seen := Some now, status := ''online''\<rparr>)
                   (devices s)\<rparr>
          else s
      | _ \<Rightarrow> s)"

definition new_telemetry :: "json \<Rightarrow> datetime \<Rightarrow> payload \<Rightarrow> TelemetryData" where
  "new_telemetry dev_id t_rec p =
     \<lparr>sender_id = Py dev_id, timestamp = t_rec,
      temperature = Py (py_get p ''temperature''),
      humidity = Py (py_get p ''humidity''),
      wifi_rssi = Py (py_get p ''wifi_rssi''),
      free_heap = Py (py_get p ''free_heap''),
      uptime = Py (py_get p ''uptime''),
      custom_data = Py (py_get p ''custom_data'')\<rparr>"

text \<open>
  The handler ends with a \<open>logger.debug\<close> call, which the INFO level drops. A
  \<open>device_id\<close> that is a list or a dict makes \<open>device_id in self.devices\<close> raise
  TypeError, which the handler's \<open>except\<close> logs.
\<close>

definition handle_telemetry ::
  "datetime \<Rightarrow> datetime \<Rightarrow> datetime \<Rightarrow> string option \<Rightarrow> bool \<Rightarrow> payload \<Rightarrow>
    EdgeGateway \<Rightarrow> EdgeGateway" where
  "handle_telemetry t_seen t_rec t_fwd fault running_loop p s =
     (let dev_id = py_get p ''device_id'' in
      if \<not> truthy dev_id then log_msg WARNING ''Telemetry message missing device_id'' s
      else if \<not> hashable dev_id
      then log_exc ERROR ''Error handling telemetry: '' UnhashableType s
      else
        let s1 = touch_online t_seen dev_id s;
            telemetry = new_telemetry dev_id t_rec p;
            s2 = save_telemetry fault telemetry s1
        in if cloud_client s2 then forward_to_cloud t_fwd running_loop ''telemetry'' p s2
           else s2)"

definition handle_status_update ::
  "datetime \<Rightarrow> datetime \<Rightarrow> string option \<Rightarrow> str_payload \<Rightarrow> EdgeGateway \<Rightarrow> EdgeGateway" where
  "handle_status_update t_seen t_db fault p s =
     (let st = get_default p ''status'' ''unknown'' in
      case p ''device_id'' of
        None \<Rightarrow> s
      | Some dev_id \<Rightarrow>
          if dev_id \<in> fst ` set (devices s)
          then
            let s1 = s\<lparr>devices :=
                       AList.map_entry dev_id
                         (\<lambda>dev. dev\<lparr>status := st, last_seen := Some t_seen\<rparr>) (devices s)\<rparr>;
                s2 = update_device_status t_db fault dev_id st s1
            in log_msg INFO (''Device '' @ dev_id @ '' status: '' @ st) s2
          else s)"

subsection \<open>Health monitor\<close>

definition offline_threshold :: timedelta where
  "offline_threshold = timedelta_minutes 5"

definition goes_offline :: "datetime \<Rightarrow> DeviceInfo \<Rightarrow> bool" where
  \<comment> \<open>the two nested conditions of the loop body\<close>
  "goes_offline now device =
     (case last_seen device of
        None \<Rightarrow> False
      | Some seen \<Rightarrow> now - seen > offline_threshold \<and> status device \<noteq> ''offline'')"

definition mark_offline ::
  "(string \<Rightarrow> datetime) \<Rightarrow> (string \<Rightarrow> string option) \<Rightarrow> string \<Rightarrow> EdgeGateway \<Rightarrow> EdgeGateway" where
  \<comment> \<open>the body of the inner \<open>if\<close>: flag the device, write the row, log the warning\<close>
  "mark_offline upd_time upd_fault dev_id s =
     log_msg WARNING (''Device '' @ dev_id @ '' marked as offline'')
       (update_device_status (upd_time dev_id) (upd_fault dev_id) dev_id ''offline''
          (s\<lparr>devices :=
               AList.map_entry dev_id (\<lambda>dev. dev\<lparr>status := ''offline''\<rparr>) (devices s)\<rparr>))"

fun health_loop ::
  "datetime \<Rightarrow> (string \<Rightarrow> datetime) \<Rightarrow> (string \<Rightarrow> string option) \<Rightarrow>
    (string \<times> DeviceInfo) list \<Rightarrow> EdgeGateway \<Rightarrow> EdgeGateway" where
  "health_loop now upd_time upd_fault [] s = s"
| "health_loop now upd_time upd_fault (item # items) s =
     health_loop now upd_time upd_fault items
       (if goes_offline now (snd item) then mark_offline upd_time upd_fault (fst item) s
        else s)"

definition check_device_health ::
  "datetime \<Rightarrow> (string \<Rightarrow> datetime) \<Rightarrow> (string \<Rightarrow> string option) \<Rightarrow>
    EdgeGateway \<Rightarrow> EdgeGateway" where
  \<comment> \<open>\<open>upd_time d\<close>, \<open>upd_fault d\<close>: the clock and the fault of the row update for d\<close>
  "check_device_health now upd_time upd_fault s =
     health_loop now upd_time upd_fault (devices s) s"

subsection \<open>Retention\<close>

definition cleanup_old_data :: "datetime \<Rightarrow> string option \<Rightarrow> EdgeGateway \<Rightarrow> EdgeGateway" where
  "cleanup_old_data now fault s =
     (let retention_days = (case conf_retention_days s of None \<Rightarrow> 30 | Some n \<Rightarrow> n) in
      case timedelta_days retention_days of
        None \<Rightarrow> log_exc ERROR ''Error cleaning up old data: '' OverflowError s
      | Some delta \<Rightarrow>
          (case datetime_sub now delta of
             None \<Rightarrow> log_exc ERROR ''Error cleaning up old data: '' OverflowError s
           | Some cutoff_date \<Rightarrow>
               (case fault of
                  Some e \<Rightarrow> log_exc ERROR ''Error cleaning up old data: '' (SqliteError e) s
                | None \<Rightarrow>
                    let kept = filter (\<lambda>r. \<not> timestamp r < cutoff_date) (db_telemetry s);
                        deleted_rows = length (db_telemetry s) - length kept;
                        s1 = s\<lparr>db_telemetry := kept\<rparr>
                    in if deleted_rows > 0
                       then log_msg INFO
                              (''Cleaned up '' @ str_nat deleted_rows @ '' old telemetry records'')
                              s1
                       else s1)))"

subsection \<open>The status predicate of the data model\<close>

definition statuses_valid :: "EdgeGateway \<Rightarrow> bool" where
  "statuses_valid s =
     list_all (\<lambda>e. status (snd e) = ''online'' \<or> status (snd e) = ''offline'') (devices s)"

subsection \<open>Sample runs\<close>

text \<open>
  A gateway started on an empty database with no configuration file, the registration
  payload \<open>{"device_id": "d1", "device_type": "sensor"}\<close> handled once and twice, a
  second device, and messages for them; a gateway whose configuration sets the id
  \<open>gw-42\<close>; a registration payload whose \<open>capabilities\<close> is a list and one whose
  \<open>device_id\<close> is a list; a telemetry payload that gives \<open>wifi_rssi\<close> as the text
  \<open>-70\<close>. Instants are small numbers of microseconds.
\<close>

definition sample_gateway :: EdgeGateway where
  "sample_gateway = init NotSet None [] [] []"

definition configured_gateway :: EdgeGateway where
  "configured_gateway = init (Returns ''gw-42'') None [] [] []"

definition sample_registration :: payload where
  "sample_registration = [''device_id'' \<mapsto> JStr ''d1'', ''device_type'' \<mapsto> JStr ''sensor'']"

definition listed_capabilities :: payload where
  "listed_capabilities =
     [''device_id'' \<mapsto> JStr ''d1'', ''capabilities'' \<mapsto> JArr [JStr ''temp'', JStr ''hum'']]"

definition listed_device_id :: payload where
  "listed_device_id = [''device_id'' \<mapsto> JArr [JStr ''a'']]"

definition registered_once :: EdgeGateway where
  "registered_once =
     the (handle_device_registration 100 101 102 None None sample_registration sample_gateway)"

definition registered_twice :: EdgeGateway where
  "registered_twice =
     the (handle_device_registration 200 201 202 None None sample_registration registered_once)"

definition sample_telemetry :: payload where
  "sample_telemetry = [''device_id'' \<mapsto> JStr ''d1'', ''temperature'' \<mapsto> JFloat 21.5]"

definition texted_telemetry :: payload where
  "texted_telemetry =
     [''device_id'' \<mapsto> JStr ''d1'', ''temperature'' \<mapsto> JInt 21,
      ''wifi_rssi'' \<mapsto> JStr ''-70'']"

definition status_unknown :: EdgeGateway where
  "status_unknown = handle_status_update 300 301 None [''device_id'' \<mapsto> ''d1''] registered_once"

definition two_devices :: EdgeGateway where
  "two_devices =
     handle_status_update 120 121 None [''device_id'' \<mapsto> ''d2'', ''status'' \<mapsto> ''offline'']
       (the (handle_device_registration 110 111 112 None None [''device_id'' \<mapsto> JStr ''d2'']
               registered_once))"

definition three_records :: EdgeGateway where
  "three_records =
     handle_telemetry 500 501 502 None True sample_telemetry
       (handle_telemetry 500 500 500 None True sample_telemetry
          (handle_telemetry 499 499 499 None True sample_telemetry registered_once))"

section \<open>What each operation does to each field\<close>

declare str_nat.simps [simp del]

lemma log_msg_fields [simp]:
  "devices (log_msg l m s) = devices s"
  "db_devices (log_msg l m s) = db_devices s"
  "db_telemetry (log_msg l m s) = db_telemetry s"
  "db_commands (log_msg l m s) = db_commands s"
  "published (log_msg l m s) = published s"
  "cloud_tasks (log_msg l m s) = cloud_tasks s"
  "cloud_client (log_msg l m s) = cloud_client s"
  "conf_gateway_id (log_msg l m s) = conf_gateway_id s"
  "conf_retention_days (log_msg l m s) = conf_retention_days s"
  by (simp_all add: log_msg_def)

lemma log_exc_fields [simp]:
  "devices (log_exc l m e s) = devices s"
  "db_devices (log_exc l m e s) = db_devices s"
  "db_telemetry (log_exc l m e s) = db_telemetry s"
  "db_commands (log_exc l m e s) = db_commands s"
  "published (log_exc l m e s) = published s"
  "cloud_tasks (log_exc l m e s) = cloud_tasks s"
  "cloud_client (log_exc l m e s) = cloud_client s"
  "conf_gateway_id (log_exc l m e s) = conf_gateway_id s"
  "conf_retention_days (log_exc l m e s) = conf_retention_days s"
  by (simp_all add: log_exc_def)

lemma save_device_fields [simp]:
  "devices (save_device f d s) = devices s"
  "db_telemetry (save_device f d s) = db_telemetry s"
  "db_commands (save_device f d s) = db_commands s"
  "published (save_device f d s) = published s"
  "cloud_tasks (save_device f d s) = cloud_tasks s"
  "cloud_client (save_device f d s) = cloud_client s"
  "conf_gateway_id (save_device f d s) = conf_gateway_id s"
  by (simp_all add: save_device_def split: option.split)

lemma save_device_db:
  "db_devices (save_device fault dev s) =
     (if fault = None \<and> device_bindable dev
      then AList.delete (device_id dev) (db_devices s) @ [(device_id dev, device_row dev)]
      else db_devices s)"
  by (simp add: save_device_def split: option.split)

lemma device_row_fields [simp]:
  "device_id (device_row dev) = device_id dev"
  "status (device_row dev) = status dev"
  "last_seen (device_row dev) = last_seen dev"
  "registration_time (device_row dev) = registration_time dev"
  by (simp_all add: device_row_def)


lemma save_telemetry_fields [simp]:
  "devices (save_telemetry f t s) = devices s"
  "db_devices (save_telemetry f t s) = db_devices s"
  "db_commands (save_telemetry f t s) = db_commands s"
  "published (save_telemetry f t s) = published s"
  "cloud_tasks (save_telemetry f t s) = cloud_tasks s"
  "cloud_client (save_telemetry f t s) = cloud_client s"
  "conf_gateway_id (save_telemetry f t s) = conf_gateway_id s"
  by (simp_all add: save_telemetry_def split: option.split)

lemma update_device_status_fields [simp]:
  "devices (update_device_status n f k st s) = devices s"
  "db_telemetry (update_device_status n f k st s) = db_telemetry s"
  "db_commands (update_device_status n f k st s) = db_commands s"
  "published (update_device_status n f k st s) = published s"
  "cloud_tasks (update_device_status n f k st s) = cloud_tasks s"
  "cloud_client (update_device_status n f k st s) = cloud_client s"
  by (simp_all add: update_device_status_def split: option.split)

lemma touch_online_fields [simp]:
  "db_devices (touch_online n v s) = db_devices s"
  "db_telemetry (touch_online n v s) = db_telemetry s"
  "db_commands (touch_online n v s) = db_commands s"
  "published (touch_online n v s) = published s"
  "cloud_tasks (touch_online n v s) = cloud_tasks s"
  "cloud_client (touch_online n v s) = cloud_client s"
  "conf_gateway_id (touch_online n v s) = conf_gateway_id s"
  "logged (touch_online n v s) = logged s"
  by (simp_all add: touch_online_def split: json.split)

lemma forward_to_cloud_fields [simp]:
  "devices (forward_to_cloud n r m p s) = devices s"
  "db_devices (forward_to_cloud n r m p s) = db_devices s"
  "db_telemetry (forward_to_cloud n r m p s) = db_telemetry s"
  "db_commands (forward_to_cloud n r m p s) = db_commands s"
  "published (forward_to_cloud n r m p s) = published s"
  by (simp_all add: forward_to_cloud_def Let_def split: sum.split)

lemma new_device_fields [simp]:
  "device_id (new_device t_seen t_reg d p) = d"
  "last_seen (new_device t_seen t_reg d p) = Some t_seen"
  "status (new_device t_seen t_reg d p) = ''online''"
  "registration_time (new_device t_seen t_reg d p) = Some t_reg"
  by (simp_all add: new_device_def)

subsection \<open>Registration\<close>

lemma registration_of_string:
  "p ''device_id'' = Some (JStr d) \<Longrightarrow>
   handle_device_registration t_seen t_reg t_msg fault pub_fault p s =
     Some (register_device t_seen t_reg t_msg fault pub_fault d p s)"
  by (simp add: handle_device_registration_def)

lemma registration_outcomes:
  assumes "handle_device_registration t_seen t_reg t_msg fault pub_fault p s = Some s'"
  shows "s' = log_exc ERROR ''Error handling device registration: '' (KeyError ''device_id'') s \<or>
         s' = register_unhashable fault s \<or>
         (\<exists>d. p ''device_id'' = Some (JStr d) \<and>
              s' = register_device t_seen t_reg t_msg fault pub_fault d p s)"
  using assms
  by (auto simp add: handle_device_registration_def split: option.splits json.splits)

lemma register_device_devices:
  "devices (register_device t_seen t_reg t_msg fault pub_fault d p s) =
     AList.update d (new_device t_seen t_reg d p) (devices s)"
  by (simp add: register_device_def Let_def split: sum.split option.split)

lemma register_device_db:
  "db_devices (register_device t_seen t_reg t_msg fault pub_fault d p s) =
     (if fault = None \<and> device_bindable (new_device t_seen t_reg d p)
      then AList.delete d (db_devices s) @ [(d, device_row (new_device t_seen t_reg d p))]
      else db_devices s)"
  by (simp add: register_device_def Let_def save_device_db split: sum.split option.split)

lemma register_device_published:
  "published (register_device t_seen t_reg t_msg fault pub_fault d p s) =
     (case gateway_id_of s of
        Inl e \<Rightarrow> published s
      | Inr g \<Rightarrow>
          (if pub_fault = None
           then published s @
             [(commands_topic d,
               \<lparr>command = ''registration_confirmed'', gateway_id = g, issued_at = t_msg\<rparr>)]
           else published s))"
  by (simp add: register_device_def Let_def gateway_id_of_def
      split: sum.split conf_lookup.split option.split)

lemma register_device_commands:
  "db_commands (register_device t_seen t_reg t_msg fault pub_fault d p s) = db_commands s"
  by (simp add: register_device_def Let_def split: sum.split option.split)

lemma register_unhashable_fields [simp]:
  "devices (register_unhashable fault s) = devices s"
  "db_devices (register_unhashable fault s) = db_devices s"
  "db_commands (register_unhashable fault s) = db_commands s"
  "published (register_unhashable fault s) = published s"
  by (simp_all add: register_unhashable_def)

lemma registration_commands:
  "handle_device_registration t_seen t_reg t_msg fault pub_fault p s = Some s' \<Longrightarrow>
   db_commands s' = db_commands s"
  by (auto dest!: registration_outcomes simp add: register_device_commands)

lemma one_entry_per_key:
  "distinct (map fst xs) \<Longrightarrow> k \<in> fst ` set xs \<Longrightarrow>
   length (filter (\<lambda>e. fst e = k) xs) = 1"
proof (induction xs)
  case Nil
  then show ?case by simp
next
  case (Cons x xs)
  show ?case
  proof (cases "fst x = k")
    case True
    with Cons.prems have "k \<notin> fst ` set xs" by auto
    then have "filter (\<lambda>e. fst e = k) xs = []"
      by (auto simp: filter_empty_conv)
    with True show ?thesis by simp
  next
    case False
    with Cons show ?thesis by auto
  qed
qed

subsection \<open>Telemetry\<close>

lemma telemetry_dropped:
  "\<not> truthy (py_get p ''device_id'') \<Longrightarrow>
   handle_telemetry t_seen t_rec t_fwd fault running_loop p s =
     log_msg WARNING ''Telemetry message missing device_id'' s"
  by (simp add: handle_telemetry_def)

lemma telemetry_commands:
  "db_commands (handle_telemetry t_seen t_rec t_fwd fault running_loop p s) = db_commands s"
  by (simp add: handle_telemetry_def Let_def)

lemma telemetry_devices:
  "devices (handle_telemetry t_seen t_rec t_fwd fault running_loop p s) =
     (if truthy (py_get p ''device_id'') \<and> hashable (py_get p ''device_id'')
      then devices (touch_online t_seen (py_get p ''device_id'') s) else devices s)"
  by (simp add: handle_telemetry_def Let_def)

lemma telemetry_after_save:
  "truthy (py_get p ''device_id'') \<Longrightarrow> hashable (py_get p ''device_id'') \<Longrightarrow>
   handle_telemetry t_seen t_rec t_fwd fault running_loop p s =
     (let s2 = save_telemetry fault (new_telemetry (py_get p ''device_id'') t_rec p)
                 (touch_online t_seen (py_get p ''device_id'') s)
      in if cloud_client s then forward_to_cloud t_fwd running_loop ''telemetry'' p s2 else s2)"
  by (simp add: handle_telemetry_def Let_def)

lemma save_telemetry_logged_conf [simp]:
  "gateway_id_of (save_telemetry f t s) = gateway_id_of s"
  "gateway_id_of (touch_online n v s) = gateway_id_of s"
  by (simp_all add: gateway_id_of_def)

lemma telemetry_cloud_tasks:
  "truthy (py_get p ''device_id'') \<Longrightarrow> hashable (py_get p ''device_id'') \<Longrightarrow>
   cloud_tasks (handle_telemetry t_seen t_rec t_fwd fault running_loop p s) =
     cloud_tasks s @
       (case gateway_id_of s of
          Inl e \<Rightarrow> []
        | Inr g \<Rightarrow>
            if cloud_client s \<and> running_loop
            then [\<lparr>cp_gateway_id = g, cp_message_type = ''telemetry'',
                   cp_timestamp = t_fwd, cp_data = p\<rparr>]
            else [])"
  by (simp add: telemetry_after_save Let_def forward_to_cloud_def split: sum.split)

lemma telemetry_db:
  "truthy (py_get p ''device_id'') \<Longrightarrow> hashable (py_get p ''device_id'') \<Longrightarrow>
   db_telemetry (handle_telemetry t_seen t_rec t_fwd None running_loop p s) =
     db_telemetry s @
       (if list_all bindable
             (py_get p ''device_id'' #
              map (py_get p) [''temperature'', ''humidity'', ''wifi_rssi'', ''free_heap'', ''uptime''])
        then [telemetry_row (new_telemetry (py_get p ''device_id'') t_rec p)]
        else [])"
  by (simp add: handle_telemetry_def Let_def save_telemetry_def new_telemetry_def)

lemma telemetry_last_logged:
  assumes "truthy (py_get p ''device_id'')" and "hashable (py_get p ''device_id'')"
    and "cloud_client s"
  shows "gateway_id_of s = Inl e \<Longrightarrow>
           logged (handle_telemetry t_seen t_rec t_fwd fault running_loop p s) \<noteq> [] \<and>
           last (logged (handle_telemetry t_seen t_rec t_fwd fault running_loop p s)) =
             LogExc ERROR ''Error forwarding to cloud: '' e"
    and "gateway_id_of s = Inr g \<Longrightarrow> \<not> running_loop \<Longrightarrow>
           logged (handle_telemetry t_seen t_rec t_fwd fault running_loop p s) \<noteq> [] \<and>
           last (logged (handle_telemetry t_seen t_rec t_fwd fault running_loop p s)) =
             LogExc ERROR ''Error forwarding to cloud: '' (RuntimeError ''no running event loop'')"
  using assms
  by (simp_all add: telemetry_after_save Let_def forward_to_cloud_def log_exc_def)

subsection \<open>Status\<close>

lemma status_update_unknown:
  "p ''device_id'' \<notin> Some ` fst ` set (devices s) \<Longrightarrow>
   handle_status_update t_seen t_db fault p s = s"
  by (auto simp add: handle_status_update_def Let_def split: option.split)

lemma status_update_devices:
  "p ''device_id'' = Some d \<Longrightarrow> d \<in> fst ` set (devices s) \<Longrightarrow>
   devices (handle_status_update t_seen t_db fault p s) =
     AList.map_entry d
       (\<lambda>dev. dev\<lparr>status := get_default p ''status'' ''unknown'', last_seen := Some t_seen\<rparr>)
       (devices s)"
  by (simp add: handle_status_update_def Let_def)

lemma status_update_commands:
  "db_commands (handle_status_update t_seen t_db fault p s) = db_commands s"
  by (simp add: handle_status_update_def Let_def split: option.split)

subsection \<open>Health sweep\<close>

lemma mark_offline_fields [simp]:
  "devices (mark_offline ut uf k s) =
     AList.map_entry k (\<lambda>dev. dev\<lparr>status := ''offline''\<rparr>) (devices s)"
  "db_telemetry (mark_offline ut uf k s) = db_telemetry s"
  "db_commands (mark_offline ut uf k s) = db_commands s"
  "published (mark_offline ut uf k s) = published s"
  "cloud_tasks (mark_offline ut uf k s) = cloud_tasks s"
  "cloud_client (mark_offline ut uf k s) = cloud_client s"
  by (simp_all add: mark_offline_def)

lemma mark_offline_db:
  "db_devices (mark_offline ut uf k s) =
     (case uf k of
        None \<Rightarrow> AList.map_entry k (\<lambda>r. r\<lparr>status := ''offline'', last_seen := Some (ut k)\<rparr>)
                  (db_devices s)
      | Some e \<Rightarrow> db_devices s)"
  by (simp add: mark_offline_def update_device_status_def split: option.split)

lemma mark_offline_logged:
  "logged (mark_offline ut uf k s) =
     logged s @
       (case uf k of
          None \<Rightarrow> []
        | Some e \<Rightarrow> [LogExc ERROR ''Error updating device status: '' (SqliteError e)]) @
       [Log WARNING (''Device '' @ k @ '' marked as offline'')]"
  by (simp add: mark_offline_def update_device_status_def log_msg_def log_exc_def
      split: option.split)

lemma map_entry_append:
  "k \<notin> fst ` set pre \<Longrightarrow>
   AList.map_entry k f (pre @ (k, v) # rest) = pre @ (k, f v) # rest"
  by (induct pre) auto

lemma health_loop_devices:
  "distinct (map fst (pre @ items)) \<Longrightarrow> devices s = pre @ items \<Longrightarrow>
   devices (health_loop now ut uf items s) =
     pre @ map (\<lambda>e. (fst e, if goes_offline now (snd e)
                            then (snd e)\<lparr>status := ''offline''\<rparr> else snd e)) items"
proof (induction items arbitrary: pre s)
  case Nil
  then show ?case by simp
next
  case (Cons e items)
  obtain k d where e: "e = (k, d)" by (cases e)
  from Cons.prems have notin: "k \<notin> fst ` set pre" by (auto simp: e)
  from Cons.prems have dist: "\<And>v. distinct (map fst ((pre @ [(k, v)]) @ items))"
    by (simp add: e)
  show ?case
  proof (cases "goes_offline now d")
    case True
    have "devices (mark_offline ut uf k s) =
            (pre @ [(k, d\<lparr>status := ''offline''\<rparr>)]) @ items"
      using Cons.prems(2) notin by (simp add: e map_entry_append)
    from Cons.IH [OF dist this] show ?thesis using True by (simp add: e)
  next
    case False
    have "devices s = (pre @ [(k, d)]) @ items" using Cons.prems(2) by (simp add: e)
    from Cons.IH [OF dist this] show ?thesis using False by (simp add: e)
  qed
qed

lemma health_loop_logged:
  "logged (health_loop now ut uf items s) =
     logged s @
       concat (map (\<lambda>e. if goes_offline now (snd e)
                         then (case uf (fst e) of
                                 None \<Rightarrow> []
                               | Some x \<Rightarrow> [LogExc ERROR ''Error updating device status: ''
                                              (SqliteError x)]) @
                              [Log WARNING (''Device '' @ fst e @ '' marked as offline'')]
                         else []) items)"
  by (induction items arbitrary: s) (simp_all add: mark_offline_logged)

lemma health_loop_db:
  "distinct (map fst items) \<Longrightarrow>
   map_of (db_devices (health_loop now ut uf items s)) k =
     (if (\<exists>d. (k, d) \<in> set items \<and> goes_offline now d) \<and> uf k = None
      then map_option (\<lambda>r. r\<lparr>status := ''offline'', last_seen := Some (ut k)\<rparr>)
             (map_of (db_devices s) k)
      else map_of (db_devices s) k)"
proof (induction items arbitrary: s)
  case Nil
  then show ?case by simp
next
  case (Cons e items)
  obtain k' d' where e: "e = (k', d')" by (cases e)
  from Cons.prems have dist: "distinct (map fst items)" and notin: "k' \<notin> fst ` set items"
    by (auto simp: e)
  have later: "\<not> (\<exists>d. (k', d) \<in> set items \<and> goes_offline now d)"
    using notin by force
  show ?case
    using Cons.IH [OF dist] later
    by (auto simp add: e mark_offline_db AList.map_of_map_entry split: option.split)
qed

lemma health_loop_noop:
  "list_all (\<lambda>e. \<not> goes_offline now (snd e)) items \<Longrightarrow> health_loop now ut uf items s = s"
  by (induction items) simp_all

lemma health_loop_other_fields [simp]:
  "db_telemetry (health_loop now ut uf items s) = db_telemetry s"
  "db_commands (health_loop now ut uf items s) = db_commands s"
  "published (health_loop now ut uf items s) = published s"
  "cloud_tasks (health_loop now ut uf items s) = cloud_tasks s"
  "cloud_client (health_loop now ut uf items s) = cloud_client s"
  by (induction items arbitrary: s) simp_all

lemma offline_never_flagged: "status d = ''offline'' \<Longrightarrow> \<not> goes_offline now d"
  by (simp add: goes_offline_def split: option.split)

lemma goes_offline_iff:
  "goes_offline now d =
     (\<exists>seen. last_seen d = Some seen \<and> now - seen > 300000000 \<and> status d \<noteq> ''offline'')"
  by (simp add: goes_offline_def offline_threshold_def timedelta_minutes_def
      split: option.split)

subsection \<open>Retention\<close>

lemma cleanup_fields [simp]:
  "devices (cleanup_old_data now fault s) = devices s"
  "db_devices (cleanup_old_data now fault s) = db_devices s"
  "db_commands (cleanup_old_data now fault s) = db_commands s"
  "published (cleanup_old_data now fault s) = published s"
  "cloud_tasks (cleanup_old_data now fault s) = cloud_tasks s"
  by (simp_all add: cleanup_old_data_def Let_def split: option.split)

lemma cleanup_db_telemetry:
  "timedelta_days (case conf_retention_days s of None \<Rightarrow> 30 | Some n \<Rightarrow> n) = Some delta \<Longrightarrow>
   datetime_sub now delta = Some cutoff \<Longrightarrow>
   db_telemetry (cleanup_old_data now None s) =
     filter (\<lambda>r. cutoff \<le> timestamp r) (db_telemetry s)"
  by (simp add: cleanup_old_data_def Let_def not_less)

subsection \<open>Status validity\<close>

lemma list_all_update:
  "list_all P xs \<Longrightarrow> P (k, v) \<Longrightarrow> list_all P (AList.update k v xs)"
  by (induction xs) auto

lemma valid_map_entry:
  assumes "list_all (\<lambda>e. status (snd e) = ''online'' \<or> status (snd e) = ''offline'') xs"
    and "\<And>v. status (f v) = status v \<or> status (f v) = ''online'' \<or> status (f v) = ''offline''"
  shows "list_all (\<lambda>e. status (snd e) = ''online'' \<or> status (snd e) = ''offline'')
           (AList.map_entry k f xs)"
  using assms(1)
proof (induction xs)
  case Nil
  then show ?case by simp
next
  case (Cons x xs)
  from assms(2) [of "snd x"] Cons show ?case by auto
qed

lemma health_loop_valid:
  "statuses_valid s \<Longrightarrow> statuses_valid (health_loop now ut uf items s)"
proof (induction items arbitrary: s)
  case Nil
  then show ?case by simp
next
  case (Cons e items)
  have "statuses_valid (mark_offline ut uf (fst e) s)"
    using Cons.prems unfolding statuses_valid_def
    by (simp add: valid_map_entry)
  with Cons show ?case by simp
qed


subsection \<open>The sample runs, evaluated\<close>

lemmas run_defs =
  init_def load_devices_def log_msg_def log_exc_def handle_device_registration_def
  register_device_def register_unhashable_def
  handle_status_update_def handle_telemetry_def save_device_def save_telemetry_def
  device_row_def device_bindable_def
  update_device_status_def new_device_def new_telemetry_def telemetry_row_def
  touch_online_def forward_to_cloud_def commands_topic_def gateway_id_of_def
  get_default_def py_get_def py_get_default_def sample_registration_def
  sample_telemetry_def Let_def

lemma sample_gateway_eq:
  "sample_gateway =
     \<lparr>conf_gateway_id = NotSet, conf_retention_days = None, devices = [],
      cloud_client = False, db_devices = [], db_telemetry = [], db_commands = [],
      published = [], cloud_tasks = [],
      logged = [Log INFO ''Database initialized successfully'',
                Log INFO ''Loaded 0 devices from database'']\<rparr>"
  by (simp add: sample_gateway_def run_defs str_nat.simps)

lemma configured_gateway_eq:
  "configured_gateway =
     \<lparr>conf_gateway_id = Returns ''gw-42'', conf_retention_days = None, devices = [],
      cloud_client = False, db_devices = [], db_telemetry = [], db_commands = [],
      published = [], cloud_tasks = [],
      logged = [Log INFO ''Database initialized successfully'',
                Log INFO ''Loaded 0 devices from database'']\<rparr>"
  by (simp add: configured_gateway_def run_defs str_nat.simps)

lemma registered_once_eq:
  "registered_once =
     \<lparr>conf_gateway_id = NotSet, conf_retention_days = None,
      devices =
        [(''d1'',
          \<lparr>device_id = ''d1'', device_type = Py (JStr ''sensor''),
           mac_address = Py (JStr []), ip_address = Py (JStr []),
           firmware_version = Py (JStr []), capabilities = Py (JStr []),
           last_seen = Some 100, status = ''online'', registration_time = Some 101\<rparr>)],
      cloud_client = False,
      db_devices =
        [(''d1'',
          \<lparr>device_id = ''d1'', device_type = Py (JStr ''sensor''),
           mac_address = Py (JStr []), ip_address = Py (JStr []),
           firmware_version = Py (JStr []), capabilities = Py (JStr []),
           last_seen = Some 100, status = ''online'', registration_time = Some 101\<rparr>)],
      db_telemetry = [], db_commands = [],
      published =
        [(''devices/d1/commands'',
          \<lparr>command = ''registration_confirmed'', gateway_id = ''gateway_001'',
           issued_at = 102\<rparr>)],
      cloud_tasks = [],
      logged = [Log INFO ''Database initialized successfully'',
                Log INFO ''Loaded 0 devices from database'',
                Log INFO ''Registered new device: d1'']\<rparr>"
  by (simp add: registered_once_def sample_gateway_eq run_defs)

lemma registered_once_run:
  "handle_device_registration 100 101 102 None None sample_registration sample_gateway =
     Some registered_once"
  by (simp add: registered_once_def handle_device_registration_def sample_registration_def)

lemma registered_twice_run:
  "handle_device_registration 200 201 202 None None sample_registration registered_once =
     Some registered_twice"
  by (simp add: registered_twice_def handle_device_registration_def sample_registration_def)

lemma registered_twice_devices:
  "devices registered_twice =
     [(''d1'',
       \<lparr>device_id = ''d1'', device_type = Py (JStr ''sensor''),
        mac_address = Py (JStr []), ip_address = Py (JStr []),
        firmware_version = Py (JStr []), capabilities = Py (JStr []),
        last_seen = Some 200, status = ''online'', registration_time = Some 201\<rparr>)]"
  by (simp add: registered_twice_def registered_once_eq run_defs)

lemma status_unknown_devices:
  "devices status_unknown =
     [(''d1'',
       \<lparr>device_id = ''d1'', device_type = Py (JStr ''sensor''),
        mac_address = Py (JStr []), ip_address = Py (JStr []),
        firmware_version = Py (JStr []), capabilities = Py (JStr []),
        last_seen = Some 300, status = ''unknown'', registration_time = Some 101\<rparr>)]"
  by (simp add: status_unknown_def registered_once_eq run_defs)

lemma two_devices_eq:
  "two_devices =
     \<lparr>conf_gateway_id = NotSet, conf_retention_days = None,
      devices =
        [(''d1'',
          \<lparr>device_id = ''d1'', device_type = Py (JStr ''sensor''),
           mac_address = Py (JStr []), ip_address = Py (JStr []),
           firmware_version = Py (JStr []), capabilities = Py (JStr []),
           last_seen = Some 100, status = ''online'', registration_time = Some 101\<rparr>),
         (''d2'',
          \<lparr>device_id = ''d2'', device_type = Py (JStr ''unknown''),
           mac_address = Py (JStr []), ip_address = Py (JStr []),
           firmware_version = Py (JStr []), capabilities = Py (JStr []),
           last_seen = Some 120, status = ''offline'', registration_time = Some 111\<rparr>)],
      cloud_client = False,
      db_devices =
        [(''d1'',
          \<lparr>device_id = ''d1'', device_type = Py (JStr ''sensor''),
           mac_address = Py (JStr []), ip_address = Py (JStr []),
           firmware_version = Py (JStr []), capabilities = Py (JStr []),
           last_seen = Some 100, status = ''online'', registration_time = Some 101\<rparr>),
         (''d2'',
          \<lparr>device_id = ''d2'', device_type = Py (JStr ''unknown''),
           mac_address = Py (JStr []), ip_address = Py (JStr []),
           firmware_version = Py (JStr []), capabilities = Py (JStr []),
           last_seen = Some 121, status = ''offline'', registration_time = Some 111\<rparr>)],
      db_telemetry = [], db_commands = [],
      published =
        [(''devices/d1/commands'',
          \<lparr>command = ''registration_confirmed'', gateway_id = ''gateway_001'',
           issued_at = 102\<rparr>),
         (''devices/d2/commands'',
          \<lparr>command = ''registration_confirmed'', gateway_id = ''gateway_001'',
           issued_at = 112\<rparr>)],
      cloud_tasks = [],
      logged = [Log INFO ''Database initialized successfully'',
                Log INFO ''Loaded 0 devices from database'',
                Log INFO ''Registered new device: d1'',
                Log INFO ''Registered new device: d2'',
                Log INFO ''Device d2 status: offline'']\<rparr>"
  by (simp add: two_devices_def registered_once_eq run_defs)

lemma three_records_fields:
  "map timestamp (db_telemetry three_records) = [499, 500, 501]"
  "map sender_id (db_telemetry three_records) =
     [Py (JStr ''d1''), Py (JStr ''d1''), Py (JStr ''d1'')]"
  "conf_retention_days three_records = None"
  "cloud_tasks three_records = []"
  "cloud_client three_records = False"
  by (simp_all add: three_records_def registered_once_eq run_defs)


subsection \<open>The registry is a dictionary: its keys stay distinct\<close>

lemma distinct_fold_update:
  "distinct (map fst m) \<Longrightarrow>
   distinct (map fst (fold (\<lambda>row m. AList.update (device_id (snd row)) (snd row) m) rows m))"
  by (induction rows arbitrary: m) (simp_all add: AList.distinct_update)

lemma init_keys_distinct:
  "distinct (map fst (devices (init gid days tdev ttel tcmd)))"
  by (simp add: init_def load_devices_def Let_def distinct_fold_update)

lemma map_entry_keys: "map fst (AList.map_entry k f xs) = map fst xs"
  by (induction xs) auto

lemma health_loop_keys:
  "map fst (devices (health_loop now ut uf items s)) = map fst (devices s)"
  by (induction items arbitrary: s) (simp_all add: map_entry_keys)

lemma registry_keys_distinct_preserved:
  assumes "distinct (map fst (devices s))"
  shows "handle_device_registration t_seen t_reg t_msg fault pub_fault r s = Some s' \<Longrightarrow>
           distinct (map fst (devices s'))"
    and "distinct (map fst (devices (handle_telemetry t_seen t_rec t_fwd fault running_loop q s)))"
    and "distinct (map fst (devices (handle_status_update t_seen t_db fault p s)))"
    and "distinct (map fst (devices (check_device_health now upd_time upd_fault s)))"
    and "distinct (map fst (devices (cleanup_old_data now fault s)))"
proof -
  show "distinct (map fst (devices s'))"
    if "handle_device_registration t_seen t_reg t_msg fault pub_fault r s = Some s'"
    using registration_outcomes [OF that] assms
    by (auto simp add: register_device_devices AList.distinct_update)
  show "distinct (map fst (devices (handle_telemetry t_seen t_rec t_fwd fault running_loop q s)))"
    using assms
    by (simp add: telemetry_devices touch_online_def map_entry_keys split: json.split)
  show "distinct (map fst (devices (handle_status_update t_seen t_db fault p s)))"
    using assms
    by (simp add: handle_status_update_def Let_def map_entry_keys split: option.split)
  show "distinct (map fst (devices (check_device_health now upd_time upd_fault s)))"
    using assms by (simp add: check_device_health_def health_loop_keys)
  show "distinct (map fst (devices (cleanup_old_data now fault s)))"
    using assms by simp
qed


section \<open>The claims\<close>

text \<open>
  C1 (amended). Handling a registration message for a device id that is already in the
  registry leaves exactly one registry entry for that id, at its old place; the entry is
  the freshly built record: its \<open>registration_time\<close> is the clock reading of this
  registration (it is reset, the earlier one is not kept), its \<open>last_seen\<close> is the
  clock reading taken for it and its \<open>status\<close> is online.
\<close>

theorem reregistration_resets_registration_time:
  assumes "distinct (map fst (devices s))"
    and "d \<in> fst ` set (devices s)"
    and "p ''device_id'' = Some (JStr d)"
    and "handle_device_registration t_seen t_reg t_msg fault pub_fault p s = Some s'"
  shows "length (filter (\<lambda>e. fst e = d) (devices s')) = 1 \<and>
         map fst (devices s') = map fst (devices s) \<and>
         map_of (devices s') d = Some (new_device t_seen t_reg d p) \<and>
         registration_time (new_device t_seen t_reg d p) = Some t_reg \<and>
         last_seen (new_device t_seen t_reg d p) = Some t_seen \<and>
         status (new_device t_seen t_reg d p) = ''online''"
proof -
  have "s' = register_device t_seen t_reg t_msg fault pub_fault d p s"
    using assms(3,4) by (simp add: registration_of_string)
  then have devs: "devices s' = AList.update d (new_device t_seen t_reg d p) (devices s)"
    by (simp add: register_device_devices)
  have keys: "map fst (devices s') = map fst (devices s)"
    using assms(2) by (simp add: devs AList.update_keys)
  have "length (filter (\<lambda>e. fst e = d) (devices s')) = 1"
  proof (rule one_entry_per_key)
    show "distinct (map fst (devices s'))" using assms(1) keys by simp
    have "fst ` set (devices s') = fst ` set (devices s)"
      using keys by (metis list.set_map)
    with assms(2) show "d \<in> fst ` set (devices s')" by simp
  qed
  moreover have "map_of (devices s') d = Some (new_device t_seen t_reg d p)"
    by (simp add: devs AList.update_conv')
  ultimately show ?thesis using keys by simp
qed

theorem reregistration_resets_registration_time_witness:
  "distinct (map fst (devices registered_once)) \<and>
   ''d1'' \<in> fst ` set (devices registered_once) \<and>
   sample_registration ''device_id'' = Some (JStr ''d1'') \<and>
   handle_device_registration 200 201 202 None None sample_registration registered_once =
     Some registered_twice \<and>
   length (filter (\<lambda>e. fst e = ''d1'') (devices registered_twice)) = 1 \<and>
   map_of (devices registered_twice) ''d1'' =
     Some (new_device 200 201 ''d1'' sample_registration)"
proof -
  have h1: "distinct (map fst (devices registered_once))"
    by (simp add: registered_once_eq)
  have h2: "''d1'' \<in> fst ` set (devices registered_once)"
    by (simp add: registered_once_eq)
  have h3: "sample_registration ''device_id'' = Some (JStr ''d1'')"
    by (simp add: sample_registration_def)
  from reregistration_resets_registration_time
    [where p = sample_registration and d = "''d1''", OF h1 h2 h3 registered_twice_run]
  show ?thesis using h1 h2 h3 registered_twice_run by simp
qed

text \<open>
  C1 as stated fails: \<open>d1\<close> is registered at clock reading 101 and again at 201; the
  entry then carries 201, not the 101 of the first registration.
\<close>

theorem reregistration_counterexample:
  "handle_device_registration 100 101 102 None None sample_registration sample_gateway =
     Some registered_once \<and>
   handle_device_registration 200 201 202 None None sample_registration registered_once =
     Some registered_twice \<and>
   map_option registration_time (map_of (devices registered_once) ''d1'') = Some (Some 101) \<and>
   map_option registration_time (map_of (devices registered_twice) ''d1'') = Some (Some 201) \<and>
   map_option registration_time (map_of (devices registered_twice) ''d1'') \<noteq>
     map_option registration_time (map_of (devices registered_once) ''d1'')"
  using registered_once_run registered_twice_run
  by (simp add: registered_once_eq registered_twice_devices)

text \<open>
  C2 (amended). For a telemetry message whose \<open>device_id\<close> is a non-empty string, the
  handler first saves the Telemetry Record: when the store carries the INSERT out and
  sqlite3 can bind the values, one row is appended, whose cells are what the columns
  make of the values of the payload; otherwise no row is written. It then hands the
  original payload, tagged \<open>telemetry\<close>, to the cloud relay only if
  \<open>self.cloud_client\<close> is set; with no cloud client nothing is handed over. With a
  cloud client, the envelope with the gateway identifier of the configuration
  (\<open>gateway_001\<close> when none is set) goes to \<open>asyncio.create_task\<close>; when the lookup of
  the identifier raises, or \<open>create_task\<close> finds no running loop, the error is logged
  and no task is created.
\<close>

theorem telemetry_forwarded_only_with_cloud_client:
  assumes "p ''device_id'' = Some (JStr d)"
    and "d \<noteq> []"
    and "s' = handle_telemetry t_seen t_rec t_fwd fault running_loop p s"
  shows "cloud_tasks s' =
           cloud_tasks s @
             (if cloud_client s \<and> running_loop
              then (case conf_gateway_id s of
                      NotSet \<Rightarrow>
                        [\<lparr>cp_gateway_id = ''gateway_001'', cp_message_type = ''telemetry'',
                          cp_timestamp = t_fwd, cp_data = p\<rparr>]
                    | Returns g \<Rightarrow>
                        [\<lparr>cp_gateway_id = g, cp_message_type = ''telemetry'',
                          cp_timestamp = t_fwd, cp_data = p\<rparr>]
                    | Raises e \<Rightarrow> [])
              else []) \<and>
         (\<forall>e. cloud_client s \<and> conf_gateway_id s = Raises e \<longrightarrow>
            logged s' \<noteq> [] \<and>
            last (logged s') =
              LogExc ERROR ''Error forwarding to cloud: '' (InterpolationError e)) \<and>
         (cloud_client s \<and> (\<forall>e. conf_gateway_id s \<noteq> Raises e) \<and> \<not> running_loop \<longrightarrow>
            logged s' \<noteq> [] \<and>
            last (logged s') =
              LogExc ERROR ''Error forwarding to cloud: '' (RuntimeError ''no running event loop'')) \<and>
         db_telemetry s' =
           db_telemetry s @
             (if fault = None \<and>
                 list_all bindable
                   (map (py_get p)
                      [''temperature'', ''humidity'', ''wifi_rssi'', ''free_heap'', ''uptime''])
              then [\<lparr>sender_id = Py (JStr d), timestamp = t_rec,
                     temperature = column REAL (py_get p ''temperature''),
                     humidity = column REAL (py_get p ''humidity''),
                     wifi_rssi = column INTEGER (py_get p ''wifi_rssi''),
                     free_heap = column INTEGER (py_get p ''free_heap''),
                     uptime = column INTEGER (py_get p ''uptime''),
                     custom_data =
                       (if truthy (py_get p ''custom_data'')
                        then Dump (py_get p ''custom_data'') else Py JNull)\<rparr>]
              else [])"
proof -
  have id: "py_get p ''device_id'' = JStr d" using assms(1) by (simp add: py_get_def)
  have t: "truthy (py_get p ''device_id'')" and h: "hashable (py_get p ''device_id'')"
    using assms(2) by (simp_all add: id)
  have c1: "cloud_tasks s' =
           cloud_tasks s @
             (if cloud_client s \<and> running_loop
              then (case conf_gateway_id s of
                      NotSet \<Rightarrow>
                        [\<lparr>cp_gateway_id = ''gateway_001'', cp_message_type = ''telemetry'',
                          cp_timestamp = t_fwd, cp_data = p\<rparr>]
                    | Returns g \<Rightarrow>
                        [\<lparr>cp_gateway_id = g, cp_message_type = ''telemetry'',
                          cp_timestamp = t_fwd, cp_data = p\<rparr>]
                    | Raises e \<Rightarrow> [])
              else [])"
    unfolding assms(3) telemetry_cloud_tasks [OF t h]
    by (cases "conf_gateway_id s") (simp_all add: gateway_id_of_def)
  have c2: "\<forall>e. cloud_client s \<and> conf_gateway_id s = Raises e \<longrightarrow>
            logged s' \<noteq> [] \<and>
            last (logged s') =
              LogExc ERROR ''Error forwarding to cloud: '' (InterpolationError e)"
  proof (intro allI impI)
    fix e
    assume a: "cloud_client s \<and> conf_gateway_id s = Raises e"
    then have "gateway_id_of s = Inl (InterpolationError e)"
      by (simp add: gateway_id_of_def)
    from telemetry_last_logged(1) [OF t h _ this] a
    show "logged s' \<noteq> [] \<and>
            last (logged s') =
              LogExc ERROR ''Error forwarding to cloud: '' (InterpolationError e)"
      unfolding assms(3) by blast
  qed
  have c3: "cloud_client s \<and> (\<forall>e. conf_gateway_id s \<noteq> Raises e) \<and> \<not> running_loop \<longrightarrow>
            logged s' \<noteq> [] \<and>
            last (logged s') =
              LogExc ERROR ''Error forwarding to cloud: '' (RuntimeError ''no running event loop'')"
  proof
    assume a: "cloud_client s \<and> (\<forall>e. conf_gateway_id s \<noteq> Raises e) \<and> \<not> running_loop"
    then obtain g where "gateway_id_of s = Inr g"
      by (cases "conf_gateway_id s") (simp_all add: gateway_id_of_def)
    from telemetry_last_logged(2) [OF t h _ this] a
    show "logged s' \<noteq> [] \<and>
            last (logged s') =
              LogExc ERROR ''Error forwarding to cloud: '' (RuntimeError ''no running event loop'')"
      unfolding assms(3) by blast
  qed
  have c4: "db_telemetry s' =
           db_telemetry s @
             (if fault = None \<and>
                 list_all bindable
                   (map (py_get p)
                      [''temperature'', ''humidity'', ''wifi_rssi'', ''free_heap'', ''uptime''])
              then [\<lparr>sender_id = Py (JStr d), timestamp = t_rec,
                     temperature = column REAL (py_get p ''temperature''),
                     humidity = column REAL (py_get p ''humidity''),
                     wifi_rssi = column INTEGER (py_get p ''wifi_rssi''),
                     free_heap = column INTEGER (py_get p ''free_heap''),
                     uptime = column INTEGER (py_get p ''uptime''),
                     custom_data =
                       (if truthy (py_get p ''custom_data'')
                        then Dump (py_get p ''custom_data'') else Py JNull)\<rparr>]
              else [])"
    unfolding assms(3) telemetry_after_save [OF t h]
    by (cases fault)
      (simp_all add: Let_def id save_telemetry_def new_telemetry_def telemetry_row_def)
  show ?thesis
    by (rule conjI [OF c1 conjI [OF c2 conjI [OF c3 c4]]])
qed

theorem telemetry_forwarded_only_with_cloud_client_witness:
  "texted_telemetry ''device_id'' = Some (JStr ''d1'') \<and> ''d1'' \<noteq> [] \<and>
   cloud_tasks (handle_telemetry 400 401 402 None True texted_telemetry
                  (configured_gateway\<lparr>cloud_client := True\<rparr>)) =
     [\<lparr>cp_gateway_id = ''gw-42'', cp_message_type = ''telemetry'',
       cp_timestamp = 402, cp_data = texted_telemetry\<rparr>] \<and>
   cloud_tasks (handle_telemetry 400 401 402 None True texted_telemetry
                  (configured_gateway\<lparr>cloud_client := True,
                                       conf_gateway_id := Raises ''gw%1''\<rparr>)) = [] \<and>
   cloud_tasks (handle_telemetry 400 401 402 None True texted_telemetry configured_gateway) =
     [] \<and>
   db_telemetry (handle_telemetry 400 401 402 None True texted_telemetry configured_gateway) =
     [\<lparr>sender_id = Py (JStr ''d1''), timestamp = 401,
       temperature = Col REAL (JInt 21), humidity = Py JNull,
       wifi_rssi = Col INTEGER (JStr ''-70''), free_heap = Py JNull, uptime = Py JNull,
       custom_data = Py JNull\<rparr>]"
proof -
  have h1: "texted_telemetry ''device_id'' = Some (JStr ''d1'')"
    by (simp add: texted_telemetry_def)
  have h2: "''d1'' \<noteq> []" by simp
  have vals: "py_get texted_telemetry ''temperature'' = JInt 21"
    "py_get texted_telemetry ''humidity'' = JNull"
    "py_get texted_telemetry ''wifi_rssi'' = JStr ''-70''"
    "py_get texted_telemetry ''free_heap'' = JNull"
    "py_get texted_telemetry ''uptime'' = JNull"
    "py_get texted_telemetry ''custom_data'' = JNull"
    by (simp_all add: texted_telemetry_def py_get_def)
  have c1: "cloud_tasks (handle_telemetry 400 401 402 None True texted_telemetry
                  (configured_gateway\<lparr>cloud_client := True\<rparr>)) =
     [\<lparr>cp_gateway_id = ''gw-42'', cp_message_type = ''telemetry'',
       cp_timestamp = 402, cp_data = texted_telemetry\<rparr>]"
    using telemetry_forwarded_only_with_cloud_client
      [where s = "configured_gateway\<lparr>cloud_client := True\<rparr>" and t_seen = 400
         and t_rec = 401 and t_fwd = 402 and fault = None and running_loop = True
         and p = texted_telemetry and d = "''d1''", OF h1 h2 refl, THEN conjunct1]
    by (simp add: configured_gateway_eq)
  have c2: "cloud_tasks (handle_telemetry 400 401 402 None True texted_telemetry
                  (configured_gateway\<lparr>cloud_client := True,
                                       conf_gateway_id := Raises ''gw%1''\<rparr>)) = []"
    using telemetry_forwarded_only_with_cloud_client
      [where s = "configured_gateway\<lparr>cloud_client := True, conf_gateway_id := Raises ''gw%1''\<rparr>"
         and t_seen = 400 and t_rec = 401 and t_fwd = 402 and fault = None
         and running_loop = True and p = texted_telemetry and d = "''d1''",
       OF h1 h2 refl, THEN conjunct1]
    by (simp add: configured_gateway_eq)
  note run = telemetry_forwarded_only_with_cloud_client
      [where s = configured_gateway and t_seen = 400 and t_rec = 401
         and t_fwd = 402 and fault = None and running_loop = True
         and p = texted_telemetry and d = "''d1''", OF h1 h2 refl]
  have c3: "cloud_tasks (handle_telemetry 400 401 402 None True texted_telemetry
                  configured_gateway) = []"
    using run [THEN conjunct1] by (simp add: configured_gateway_eq)
  have c4: "db_telemetry (handle_telemetry 400 401 402 None True texted_telemetry
                  configured_gateway) =
     [\<lparr>sender_id = Py (JStr ''d1''), timestamp = 401,
       temperature = Col REAL (JInt 21), humidity = Py JNull,
       wifi_rssi = Col INTEGER (JStr ''-70''), free_heap = Py JNull, uptime = Py JNull,
       custom_data = Py JNull\<rparr>]"
    using run [THEN conjunct2, THEN conjunct2, THEN conjunct2]
    by (simp add: configured_gateway_eq vals)
  from h1 h2 c1 c2 c3 c4 show ?thesis by (intro conjI)
qed

text \<open>
  C2 as stated fails: \<open>__init__\<close> leaves \<open>self.cloud_client\<close> unset and nothing sets
  it. On the gateway it builds, a telemetry message of the registered device \<open>d1\<close> is
  accepted (its record is saved) and nothing is submitted to the cloud relay.
\<close>

theorem telemetry_not_forwarded_counterexample:
  "cloud_client registered_once = False \<and>
   map timestamp
     (db_telemetry (handle_telemetry 400 401 402 None True sample_telemetry registered_once)) =
     [401] \<and>
   cloud_tasks (handle_telemetry 400 401 402 None True sample_telemetry registered_once) = []"
  by (simp add: registered_once_eq run_defs)

text \<open>
  C3 (amended). No operation creates a Command record: registration, telemetry and
  status handling, the health sweep and the retention run all leave the table
  \<open>commands\<close> as it is. The registration confirmation is only published on the
  device's commands topic.
\<close>

theorem commands_table_never_written:
  "(\<forall>s'. handle_device_registration t_seen t_reg t_msg fault pub_fault r s = Some s' \<longrightarrow>
          db_commands s' = db_commands s) \<and>
   db_commands (handle_telemetry t_seen t_rec t_fwd fault running_loop q s) = db_commands s \<and>
   db_commands (handle_status_update t_seen t_db fault p s) = db_commands s \<and>
   db_commands (check_device_health now upd_time upd_fault s) = db_commands s \<and>
   db_commands (cleanup_old_data now fault s) = db_commands s"
  by (simp add: registration_commands telemetry_commands status_update_commands
      check_device_health_def)

theorem commands_table_never_written_witness:
  "handle_device_registration 100 101 102 None None sample_registration sample_gateway =
     Some registered_once \<and>
   db_commands registered_once = db_commands sample_gateway \<and>
   db_commands (handle_telemetry 400 401 402 None True sample_telemetry registered_once) =
     db_commands registered_once"
proof -
  note kept = commands_table_never_written
    [where s = sample_gateway and r = sample_registration and t_seen = 100 and t_reg = 101
       and t_msg = 102 and fault = None and pub_fault = None]
  have "db_commands registered_once = db_commands sample_gateway"
    using kept [THEN conjunct1] registered_once_run by blast
  moreover have "db_commands (handle_telemetry 400 401 402 None True sample_telemetry
      registered_once) = db_commands registered_once"
    by (simp add: telemetry_commands)
  ultimately show ?thesis using registered_once_run by (intro conjI)
qed

text \<open>
  C3 as stated fails: after the registration of \<open>d1\<close> on an empty database the table
  \<open>commands\<close> is still empty, while the confirmation has been published.
\<close>

theorem no_command_record_counterexample:
  "handle_device_registration 100 101 102 None None sample_registration sample_gateway =
     Some registered_once \<and>
   db_commands registered_once = [] \<and>
   map fst (published registered_once) = [''devices/d1/commands'']"
  using registered_once_run by (simp add: registered_once_eq)


lemma health_sweep_effect:
  assumes "distinct (map fst (devices s))"
    and "s' = check_device_health now upd_time upd_fault s"
  shows "devices s' =
           map (\<lambda>e. (fst e, if goes_offline now (snd e)
                            then (snd e)\<lparr>status := ''offline''\<rparr> else snd e)) (devices s)"
    and "\<forall>k d. (k, d) \<in> set (devices s) \<and> goes_offline now d \<and> upd_fault k = None \<longrightarrow>
            map_of (db_devices s') k =
              map_option (\<lambda>r. r\<lparr>status := ''offline'', last_seen := Some (upd_time k)\<rparr>)
                (map_of (db_devices s) k)"
    and "\<forall>k d. (k, d) \<in> set (devices s) \<and> \<not> goes_offline now d \<longrightarrow>
            (k, d) \<in> set (devices s') \<and>
            map_of (db_devices s') k = map_of (db_devices s) k \<and>
            Log WARNING (''Device '' @ k @ '' marked as offline'') \<notin>
              set (drop (length (logged s)) (logged s'))"
proof -
  let ?flag = "\<lambda>e. (fst e, if goes_offline now (snd e)
                            then (snd e)\<lparr>status := ''offline''\<rparr> else snd e)"
  show devs: "devices s' = map ?flag (devices s)"
    using health_loop_devices [of "[]" "devices s" s now upd_time upd_fault] assms
    by (simp add: check_device_health_def)
  have db: "map_of (db_devices s') k =
     (if (\<exists>d. (k, d) \<in> set (devices s) \<and> goes_offline now d) \<and> upd_fault k = None
      then map_option (\<lambda>r. r\<lparr>status := ''offline'', last_seen := Some (upd_time k)\<rparr>)
             (map_of (db_devices s) k)
      else map_of (db_devices s) k)" for k
    unfolding assms(2) check_device_health_def by (rule health_loop_db [OF assms(1)])
  have unique: "d' = d" if "(k, d) \<in> set (devices s)" "(k, d') \<in> set (devices s)" for k d d'
    using that assms(1) by (meson eq_key_imp_eq_value)
  have persisted: "map_of (db_devices s') k =
              map_option (\<lambda>r. r\<lparr>status := ''offline'', last_seen := Some (upd_time k)\<rparr>)
                (map_of (db_devices s) k)"
    if "(k, d) \<in> set (devices s)" "goes_offline now d" "upd_fault k = None" for k d
    using that db [of k] by auto
  then show "\<forall>k d. (k, d) \<in> set (devices s) \<and> goes_offline now d \<and> upd_fault k = None \<longrightarrow>
            map_of (db_devices s') k =
              map_option (\<lambda>r. r\<lparr>status := ''offline'', last_seen := Some (upd_time k)\<rparr>)
                (map_of (db_devices s) k)"
    by blast
  have untouched: "(k, d) \<in> set (devices s') \<and>
            map_of (db_devices s') k = map_of (db_devices s) k \<and>
            Log WARNING (''Device '' @ k @ '' marked as offline'') \<notin>
              set (drop (length (logged s)) (logged s'))"
    if in_s: "(k, d) \<in> set (devices s)" and quiet: "\<not> goes_offline now d" for k d
  proof (intro conjI)
    have "?flag (k, d) \<in> set (devices s')"
      unfolding devs using in_s by (simp only: set_map) (rule imageI)
    then show "(k, d) \<in> set (devices s')" using quiet by simp
    have "\<not> (\<exists>d. (k, d) \<in> set (devices s) \<and> goes_offline now d)"
      using unique [OF in_s] quiet by blast
    then show "map_of (db_devices s') k = map_of (db_devices s) k"
      using db [of k] by auto
    show "Log WARNING (''Device '' @ k @ '' marked as offline'') \<notin>
              set (drop (length (logged s)) (logged s'))"
    proof
      assume "Log WARNING (''Device '' @ k @ '' marked as offline'') \<in>
              set (drop (length (logged s)) (logged s'))"
      then obtain e where e: "e \<in> set (devices s)" "goes_offline now (snd e)"
        and msg: "Log WARNING (''Device '' @ k @ '' marked as offline'') \<in>
               set ((case upd_fault (fst e) of
                       None \<Rightarrow> []
                     | Some x \<Rightarrow> [LogExc ERROR ''Error updating device status: ''
                                    (SqliteError x)]) @
                    [Log WARNING (''Device '' @ fst e @ '' marked as offline'')])"
        unfolding assms(2) check_device_health_def
        by (auto simp add: health_loop_logged split: if_splits)
      from msg have "fst e = k" by (auto split: option.splits)
      with e(1) have "(k, snd e) \<in> set (devices s)" by (metis prod.collapse)
      from unique [OF in_s this] e(2) quiet show False by simp
    qed
  qed
  then show "\<forall>k d. (k, d) \<in> set (devices s) \<and> \<not> goes_offline now d \<longrightarrow>
            (k, d) \<in> set (devices s') \<and>
            map_of (db_devices s') k = map_of (db_devices s) k \<and>
            Log WARNING (''Device '' @ k @ '' marked as offline'') \<notin>
              set (drop (length (logged s)) (logged s'))"
    by blast
qed

lemma health_sweep_repeated:
  assumes "distinct (map fst (devices s))"
  shows "check_device_health now later_time later_fault
           (check_device_health now upd_time upd_fault s) =
         check_device_health now upd_time upd_fault s"
proof -
  have "list_all (\<lambda>e. \<not> goes_offline now (snd e))
          (devices (check_device_health now upd_time upd_fault s))"
    by (auto simp add: health_sweep_effect(1) [OF assms refl] list_all_iff
        offline_never_flagged)
  then show ?thesis
    unfolding check_device_health_def by (rule health_loop_noop)
qed

text \<open>
  C4 (amended). One health sweep over the registry sets a device to offline exactly when
  the device \<open>goes_offline\<close>: its \<open>last_seen\<close> is set, now minus \<open>last_seen\<close> exceeds
  five minutes and its status is not already offline (online or any other stored
  status). For such a device the row is updated when the store takes the write. Every
  other device keeps its entry and its row, and no warning is logged for it. In
  particular a following sweep, at whatever instant, leaves a device that is offline as
  it is, writes no row and logs no warning for it; a following sweep at the same instant
  changes nothing at all.
\<close>

theorem health_sweep_flags_stale_devices:
  assumes "distinct (map fst (devices s))"
    and "s' = check_device_health now upd_time upd_fault s"
    and "s'' = check_device_health later later_time later_fault s'"
  shows "devices s' =
           map (\<lambda>e. (fst e, if goes_offline now (snd e)
                            then (snd e)\<lparr>status := ''offline''\<rparr> else snd e)) (devices s) \<and>
         (\<forall>d. goes_offline now d =
            (\<exists>seen. last_seen d = Some seen \<and> now - seen > 300000000 \<and>
                    status d \<noteq> ''offline'')) \<and>
         (\<forall>k d. (k, d) \<in> set (devices s) \<and> goes_offline now d \<and> upd_fault k = None \<longrightarrow>
            map_of (db_devices s') k =
              map_option (\<lambda>r. r\<lparr>status := ''offline'', last_seen := Some (upd_time k)\<rparr>)
                (map_of (db_devices s) k)) \<and>
         (\<forall>k d. (k, d) \<in> set (devices s) \<and> \<not> goes_offline now d \<longrightarrow>
            (k, d) \<in> set (devices s') \<and>
            map_of (db_devices s') k = map_of (db_devices s) k \<and>
            Log WARNING (''Device '' @ k @ '' marked as offline'') \<notin>
              set (drop (length (logged s)) (logged s'))) \<and>
         (\<forall>k d. (k, d) \<in> set (devices s') \<and> status d = ''offline'' \<longrightarrow>
            (k, d) \<in> set (devices s'') \<and>
            map_of (db_devices s'') k = map_of (db_devices s') k \<and>
            Log WARNING (''Device '' @ k @ '' marked as offline'') \<notin>
              set (drop (length (logged s')) (logged s''))) \<and>
         (later = now \<longrightarrow> s'' = s')"
proof -
  note first = health_sweep_effect [OF assms(1,2)]
  have keys: "map fst (devices s') = map fst (devices s)"
    by (simp add: first(1) comp_def)
  have dist': "distinct (map fst (devices s'))"
    using assms(1) keys by simp
  note second = health_sweep_effect [OF dist' assms(3)]
  have c2: "\<forall>d. goes_offline now d =
            (\<exists>seen. last_seen d = Some seen \<and> now - seen > 300000000 \<and>
                    status d \<noteq> ''offline'')"
    using goes_offline_iff by blast
  have c5: "\<forall>k d. (k, d) \<in> set (devices s') \<and> status d = ''offline'' \<longrightarrow>
            (k, d) \<in> set (devices s'') \<and>
            map_of (db_devices s'') k = map_of (db_devices s') k \<and>
            Log WARNING (''Device '' @ k @ '' marked as offline'') \<notin>
              set (drop (length (logged s')) (logged s''))"
    using second(3) offline_never_flagged by blast
  have c6: "later = now \<longrightarrow> s'' = s'"
    using health_sweep_repeated [OF assms(1)] assms(2,3) by simp
  show ?thesis
    by (rule conjI [OF first(1) conjI [OF c2 conjI [OF first(2) conjI [OF first(3)
          conjI [OF c5 c6]]]]])
qed

theorem health_sweep_flags_stale_devices_witness:
  "distinct (map fst (devices two_devices)) \<and>
   map (\<lambda>e. (fst e, status (snd e)))
     (devices (check_device_health 300000200 (\<lambda>k. 300000201) (\<lambda>k. None) two_devices)) =
     [(''d1'', ''offline''), (''d2'', ''offline'')] \<and>
   check_device_health 300000200 (\<lambda>k. 300000300) (\<lambda>k. None)
     (check_device_health 300000200 (\<lambda>k. 300000201) (\<lambda>k. None) two_devices) =
   check_device_health 300000200 (\<lambda>k. 300000201) (\<lambda>k. None) two_devices"
proof -
  have h: "distinct (map fst (devices two_devices))"
    by (simp add: two_devices_eq)
  note sweep =
    health_sweep_flags_stale_devices [where s = two_devices and now = 300000200
      and upd_time = "\<lambda>k. 300000201" and upd_fault = "\<lambda>k. None" and later = 300000200
      and later_time = "\<lambda>k. 300000300" and later_fault = "\<lambda>k. None", OF h refl refl]
  have c2: "map (\<lambda>e. (fst e, status (snd e)))
     (devices (check_device_health 300000200 (\<lambda>k. 300000201) (\<lambda>k. None) two_devices)) =
     [(''d1'', ''offline''), (''d2'', ''offline'')]"
    unfolding sweep [THEN conjunct1]
    by (simp add: two_devices_eq goes_offline_def offline_threshold_def timedelta_minutes_def)
  have c3: "check_device_health 300000200 (\<lambda>k. 300000300) (\<lambda>k. None)
     (check_device_health 300000200 (\<lambda>k. 300000201) (\<lambda>k. None) two_devices) =
   check_device_health 300000200 (\<lambda>k. 300000201) (\<lambda>k. None) two_devices"
    using sweep [THEN conjunct2, THEN conjunct2, THEN conjunct2, THEN conjunct2,
        THEN conjunct2]
    by simp
  from h c2 c3 show ?thesis by (intro conjI)
qed

text \<open>
  C4 as stated fails: in \<open>status_unknown\<close> the device \<open>d1\<close> has the status
  \<open>unknown\<close> (a status message without a status field put it there), so it is not
  online; the sweep that finds it silent for more than five minutes sets it to offline.
\<close>

theorem health_sweep_counterexample:
  "map_option status (map_of (devices status_unknown) ''d1'') = Some ''unknown'' \<and>
   map_option status
     (map_of (devices (check_device_health 300000400 (\<lambda>k. 300000401) (\<lambda>k. None)
                         status_unknown)) ''d1'') = Some ''offline''"
  by (simp add: check_device_health_def status_unknown_devices goes_offline_def
      offline_threshold_def timedelta_minutes_def mark_offline_def update_device_status_def
      log_msg_def)

text \<open>
  C5 (amended). Registration, telemetry handling, the health sweep and the retention run
  keep every registry status in \<open>{online, offline}\<close>. Status handling stores the status
  string of the message as it is (\<open>unknown\<close> when the field is absent), so it keeps the
  predicate when that string is \<open>online\<close> or \<open>offline\<close>.
\<close>

theorem statuses_valid_preserved:
  assumes "statuses_valid s"
  shows "(\<forall>s'. handle_device_registration t_seen t_reg t_msg fault pub_fault r s = Some s' \<longrightarrow>
                statuses_valid s') \<and>
         statuses_valid (handle_telemetry t_seen t_rec t_fwd fault running_loop q s) \<and>
         statuses_valid (check_device_health now upd_time upd_fault s) \<and>
         statuses_valid (cleanup_old_data now fault s) \<and>
         (get_default p ''status'' ''unknown'' = ''online'' \<or>
          get_default p ''status'' ''unknown'' = ''offline'' \<longrightarrow>
            statuses_valid (handle_status_update t_seen t_db fault p s)) \<and>
         (\<forall>d. p ''device_id'' = Some d \<and> d \<in> fst ` set (devices s) \<longrightarrow>
            map_option status
              (map_of (devices (handle_status_update t_seen t_db fault p s)) d) =
              Some (get_default p ''status'' ''unknown''))"
proof -
  have reg: "\<forall>s'. handle_device_registration t_seen t_reg t_msg fault pub_fault r s = Some s' \<longrightarrow>
                statuses_valid s'"
  proof (intro allI impI)
    fix s'
    assume "handle_device_registration t_seen t_reg t_msg fault pub_fault r s = Some s'"
    from registration_outcomes [OF this] assms show "statuses_valid s'"
      by (auto simp add: statuses_valid_def register_device_devices list_all_update)
  qed
  have touch: "statuses_valid (touch_online t_seen v s)" for v
  proof (cases v)
    case (JStr d)
    have "list_all (\<lambda>e. status (snd e) = ''online'' \<or> status (snd e) = ''offline'')
            (AList.map_entry d (\<lambda>dev. dev\<lparr>last_seen := Some t_seen, status := ''online''\<rparr>)
               (devices s))"
      by (rule valid_map_entry) (use assms in \<open>simp_all add: statuses_valid_def\<close>)
    with assms show ?thesis by (simp add: JStr touch_online_def statuses_valid_def)
  qed (use assms in \<open>simp_all add: touch_online_def\<close>)
  have tel: "statuses_valid (handle_telemetry t_seen t_rec t_fwd fault running_loop q s)"
    using assms touch [of "py_get q ''device_id''"]
    by (simp add: statuses_valid_def telemetry_devices)
  have sweep: "statuses_valid (check_device_health now upd_time upd_fault s)"
    using assms by (simp add: check_device_health_def health_loop_valid)
  have clean: "statuses_valid (cleanup_old_data now fault s)"
    using assms by (simp add: statuses_valid_def)
  have st: "statuses_valid (handle_status_update t_seen t_db fault p s)"
    if "get_default p ''status'' ''unknown'' = ''online'' \<or>
        get_default p ''status'' ''unknown'' = ''offline''"
  proof (cases "p ''device_id'' \<in> Some ` fst ` set (devices s)")
    case False
    with assms show ?thesis by (simp add: status_update_unknown)
  next
    case True
    then obtain d where "p ''device_id'' = Some d" "d \<in> fst ` set (devices s)" by auto
    moreover have "list_all (\<lambda>e. status (snd e) = ''online'' \<or> status (snd e) = ''offline'')
            (AList.map_entry d
               (\<lambda>dev. dev\<lparr>status := get_default p ''status'' ''unknown'',
                           last_seen := Some t_seen\<rparr>) (devices s))"
      by (rule valid_map_entry) (use assms that in \<open>auto simp add: statuses_valid_def\<close>)
    ultimately show ?thesis
      by (simp add: statuses_valid_def status_update_devices)
  qed
  have stored: "map_option status
              (map_of (devices (handle_status_update t_seen t_db fault p s)) d) =
              Some (get_default p ''status'' ''unknown'')"
    if "p ''device_id'' = Some d" "d \<in> fst ` set (devices s)" for d
  proof -
    from that(2) obtain v where "map_of (devices s) d = Some v"
      by (metis domD dom_map_of_conv_image_fst)
    with that show ?thesis
      by (simp add: status_update_devices AList.map_of_map_entry)
  qed
  have c5: "get_default p ''status'' ''unknown'' = ''online'' \<or>
          get_default p ''status'' ''unknown'' = ''offline'' \<longrightarrow>
            statuses_valid (handle_status_update t_seen t_db fault p s)"
    using st by blast
  have c6: "\<forall>d. p ''device_id'' = Some d \<and> d \<in> fst ` set (devices s) \<longrightarrow>
            map_option status
              (map_of (devices (handle_status_update t_seen t_db fault p s)) d) =
              Some (get_default p ''status'' ''unknown'')"
    using stored by blast
  show ?thesis
    by (rule conjI [OF reg conjI [OF tel conjI [OF sweep conjI [OF clean conjI [OF c5 c6]]]]])
qed

theorem statuses_valid_preserved_witness:
  "statuses_valid registered_once \<and>
   handle_device_registration 200 201 202 None None sample_registration registered_once =
     Some registered_twice \<and>
   statuses_valid registered_twice \<and>
   statuses_valid
     (handle_status_update 120 121 None [''device_id'' \<mapsto> ''d1'', ''status'' \<mapsto> ''offline'']
        registered_once) \<and>
   statuses_valid (check_device_health 300000200 (\<lambda>k. 300000201) (\<lambda>k. None) registered_once) \<and>
   map_option status
     (map_of (devices
        (handle_status_update 120 121 None [''device_id'' \<mapsto> ''d1'', ''status'' \<mapsto> ''offline'']
           registered_once)) ''d1'') = Some ''offline''"
proof -
  have h: "statuses_valid registered_once"
    by (simp add: statuses_valid_def registered_once_eq)
  note kept =
    statuses_valid_preserved [OF h,
      where p = "[''device_id'' \<mapsto> ''d1'', ''status'' \<mapsto> ''offline'']" and t_seen = 120
        and t_db = 121 and fault = None and now = 300000200
        and upd_time = "\<lambda>k. 300000201" and upd_fault = "\<lambda>k. None"]
  have st: "get_default [''device_id'' \<mapsto> ''d1'', ''status'' \<mapsto> ''offline''] ''status'' ''unknown'' =
            ''offline''"
    by (simp add: get_default_def)
  have c3: "statuses_valid
     (check_device_health 300000200 (\<lambda>k. 300000201) (\<lambda>k. None) registered_once)"
    by (rule kept [THEN conjunct2, THEN conjunct2, THEN conjunct1])
  have c2: "statuses_valid
     (handle_status_update 120 121 None [''device_id'' \<mapsto> ''d1'', ''status'' \<mapsto> ''offline'']
        registered_once)"
    using kept [THEN conjunct2, THEN conjunct2, THEN conjunct2, THEN conjunct2,
        THEN conjunct1] st
    by simp
  have c4: "map_option status
     (map_of (devices
        (handle_status_update 120 121 None [''device_id'' \<mapsto> ''d1'', ''status'' \<mapsto> ''offline'']
           registered_once)) ''d1'') = Some ''offline''"
    by (simp add: registered_once_eq run_defs)
  have c1: "statuses_valid registered_twice"
    using statuses_valid_preserved [OF h,
      where r = sample_registration and t_seen = 200 and t_reg = 201 and t_msg = 202
        and fault = None, THEN conjunct1] registered_twice_run
    by blast
  from h registered_twice_run c1 c2 c3 c4 show ?thesis by (intro conjI)
qed

text \<open>
  C5 as stated fails: a status message for the registered device \<open>d1\<close> that carries no
  status field leaves \<open>d1\<close> with the status \<open>unknown\<close>.
\<close>

theorem status_unknown_counterexample:
  "statuses_valid registered_once \<and>
   map_option status (map_of (devices status_unknown) ''d1'') = Some ''unknown'' \<and>
   \<not> statuses_valid status_unknown"
  by (simp add: statuses_valid_def registered_once_eq status_unknown_devices)


text \<open>
  C6. A retention run whose cutoff \<open>now - retention_days\<close> can be computed, on a store
  that carries the DELETE out, keeps exactly the Telemetry Records whose timestamp is
  not strictly less than the cutoff, each as it was and in the old order: a record at
  the cutoff stays, every record before it goes. The registry and the other tables are
  not touched.
\<close>

theorem cleanup_deletes_strictly_older:
  assumes "timedelta_days (case conf_retention_days s of None \<Rightarrow> 30 | Some n \<Rightarrow> n) = Some delta"
    and "datetime_sub now delta = Some cutoff"
    and "s' = cleanup_old_data now None s"
  shows "cutoff = now - (case conf_retention_days s of None \<Rightarrow> 30 | Some n \<Rightarrow> n) * 86400000000 \<and>
         db_telemetry s' = filter (\<lambda>r. \<not> timestamp r < cutoff) (db_telemetry s) \<and>
         (\<forall>r. r \<in> set (db_telemetry s') \<longleftrightarrow>
              r \<in> set (db_telemetry s) \<and> cutoff \<le> timestamp r) \<and>
         devices s' = devices s \<and> db_devices s' = db_devices s \<and>
         db_commands s' = db_commands s"
proof -
  have c1: "cutoff = now - (case conf_retention_days s of None \<Rightarrow> 30 | Some n \<Rightarrow> n) * 86400000000"
    using assms(1,2)
    by (auto simp add: timedelta_days_def datetime_sub_def Let_def split: if_splits)
  have c2: "db_telemetry s' = filter (\<lambda>r. \<not> timestamp r < cutoff) (db_telemetry s)"
    unfolding assms(3) using cleanup_db_telemetry [OF assms(1,2)] by (simp add: not_less)
  have c3: "\<forall>r. r \<in> set (db_telemetry s') \<longleftrightarrow>
              r \<in> set (db_telemetry s) \<and> cutoff \<le> timestamp r"
    by (auto simp add: c2)
  have c4: "devices s' = devices s" and c5: "db_devices s' = db_devices s"
    and c6: "db_commands s' = db_commands s"
    by (simp_all add: assms(3))
  show ?thesis
    by (rule conjI [OF c1 conjI [OF c2 conjI [OF c3 conjI [OF c4 conjI [OF c5 c6]]]]])
qed

theorem cleanup_deletes_strictly_older_witness:
  "timedelta_days (case conf_retention_days three_records of None \<Rightarrow> 30 | Some n \<Rightarrow> n) =
     Some 2592000000000 \<and>
   datetime_sub 2592000000500 2592000000000 = Some 500 \<and>
   map timestamp (db_telemetry three_records) = [499, 500, 501] \<and>
   map timestamp (db_telemetry (cleanup_old_data 2592000000500 None three_records)) =
     [500, 501]"
proof -
  have h1: "timedelta_days (case conf_retention_days three_records of None \<Rightarrow> 30 | Some n \<Rightarrow> n) =
     Some 2592000000000"
    by (simp add: three_records_fields timedelta_days_def)
  have h2: "datetime_sub 2592000000500 2592000000000 = Some 500"
    by (simp add: datetime_sub_def datetime_max_def)
  note run = cleanup_deletes_strictly_older [OF h1 h2 refl]
  have "map timestamp (db_telemetry (cleanup_old_data 2592000000500 None three_records)) =
          filter (\<lambda>t. \<not> t < 500) (map timestamp (db_telemetry three_records))"
    unfolding run [THEN conjunct2, THEN conjunct1] by (simp add: filter_map comp_def)
  then have "map timestamp (db_telemetry (cleanup_old_data 2592000000500 None three_records)) =
     [500, 501]"
    by (simp add: three_records_fields)
  with h1 h2 three_records_fields(1) show ?thesis by (intro conjI)
qed

text \<open>
  C7. A telemetry message whose payload has no \<open>device_id\<close> field is dropped with a
  logged warning: no Telemetry Record is created, the registry and the device rows are
  as before, and nothing is forwarded to the cloud.
\<close>

theorem telemetry_without_device_id_is_dropped:
  assumes "p ''device_id'' = None"
    and "s' = handle_telemetry t_seen t_rec t_fwd fault running_loop p s"
  shows "db_telemetry s' = db_telemetry s \<and> devices s' = devices s \<and>
         db_devices s' = db_devices s \<and> cloud_tasks s' = cloud_tasks s \<and>
         logged s' = logged s @ [Log WARNING ''Telemetry message missing device_id'']"
proof -
  have "\<not> truthy (py_get p ''device_id'')" using assms(1) by (simp add: py_get_def)
  then have "s' = log_msg WARNING ''Telemetry message missing device_id'' s"
    unfolding assms(2) by (rule telemetry_dropped)
  then show ?thesis by (simp add: log_msg_def)
qed

theorem telemetry_without_device_id_is_dropped_witness:
  "[''temperature'' \<mapsto> JFloat 21.5] ''device_id'' = None \<and>
   db_telemetry (handle_telemetry 400 401 402 None True [''temperature'' \<mapsto> JFloat 21.5]
                   registered_once) = [] \<and>
   devices (handle_telemetry 400 401 402 None True [''temperature'' \<mapsto> JFloat 21.5]
              registered_once) = devices registered_once \<and>
   last (logged (handle_telemetry 400 401 402 None True [''temperature'' \<mapsto> JFloat 21.5]
                   registered_once)) = Log WARNING ''Telemetry message missing device_id''"
proof -
  have h: "[''temperature'' \<mapsto> JFloat 21.5] ''device_id'' = None" by simp
  note drop =
    telemetry_without_device_id_is_dropped [where p = "[''temperature'' \<mapsto> JFloat 21.5]"
      and s = registered_once and t_seen = 400 and t_rec = 401 and t_fwd = 402
      and fault = None and running_loop = True, OF h refl]
  from drop have "db_telemetry (handle_telemetry 400 401 402 None True
                    [''temperature'' \<mapsto> JFloat 21.5] registered_once) = []"
    by (simp add: registered_once_eq)
  moreover from drop have "devices (handle_telemetry 400 401 402 None True
                    [''temperature'' \<mapsto> JFloat 21.5] registered_once) = devices registered_once"
    by simp
  moreover from drop have "last (logged (handle_telemetry 400 401 402 None True
      [''temperature'' \<mapsto> JFloat 21.5] registered_once)) =
      Log WARNING ''Telemetry message missing device_id''"
    by simp
  ultimately show ?thesis using h by (intro conjI)
qed

text \<open>
  C8 (amended). For a registration payload whose \<open>device_id\<close> is a string d, the
  handler saves a device row for d, with status online, when the store carries the
  write out and sqlite3 can bind every member taken from the payload (a string, a
  number, a boolean or null, not an array or object); otherwise no row is written.
  When the client takes the message, it publishes, on the topic \<open>devices/d/commands\<close>,
  a message whose command is \<open>registration_confirmed\<close> and which carries the gateway
  identifier that the configuration gives (\<open>gateway_001\<close> when none is set) and the
  clock reading taken for it, unless the lookup of the identifier raises. When the
  lookup or the client raises, nothing is published.
\<close>

theorem registration_persists_and_confirms:
  assumes "p ''device_id'' = Some (JStr d)"
  shows "\<exists>s'. handle_device_registration t_seen t_reg t_msg fault pub_fault p s = Some s' \<and>
           (fault = None \<and>
            list_all (\<lambda>k. case p k of None \<Rightarrow> True | Some v \<Rightarrow> bindable v)
              [''device_type'', ''mac_address'', ''ip_address'', ''firmware_version'',
               ''capabilities''] \<longrightarrow>
              map_of (db_devices s') d = Some (device_row (new_device t_seen t_reg d p)) \<and>
              device_id (device_row (new_device t_seen t_reg d p)) = d \<and>
              status (device_row (new_device t_seen t_reg d p)) = ''online'' \<and>
              length (filter (\<lambda>e. fst e = d) (db_devices s')) = 1) \<and>
           (fault \<noteq> None \<or>
            \<not> list_all (\<lambda>k. case p k of None \<Rightarrow> True | Some v \<Rightarrow> bindable v)
                [''device_type'', ''mac_address'', ''ip_address'', ''firmware_version'',
                 ''capabilities''] \<longrightarrow>
              db_devices s' = db_devices s) \<and>
           (pub_fault = None \<and> conf_gateway_id s = NotSet \<longrightarrow>
              published s' = published s @
                [(''devices/'' @ d @ ''/commands'',
                  \<lparr>command = ''registration_confirmed'', gateway_id = ''gateway_001'',
                   issued_at = t_msg\<rparr>)]) \<and>
           (\<forall>g. pub_fault = None \<and> conf_gateway_id s = Returns g \<longrightarrow>
              published s' = published s @
                [(''devices/'' @ d @ ''/commands'',
                  \<lparr>command = ''registration_confirmed'', gateway_id = g,
                   issued_at = t_msg\<rparr>)]) \<and>
           ((\<exists>e. conf_gateway_id s = Raises e) \<or> pub_fault \<noteq> None \<longrightarrow>
              published s' = published s)"
proof -
  let ?s' = "register_device t_seen t_reg t_msg fault pub_fault d p s"
  let ?ok = "list_all (\<lambda>k. case p k of None \<Rightarrow> True | Some v \<Rightarrow> bindable v)
              [''device_type'', ''mac_address'', ''ip_address'', ''firmware_version'',
               ''capabilities'']"
  have run: "handle_device_registration t_seen t_reg t_msg fault pub_fault p s = Some ?s'"
    using assms by (rule registration_of_string)
  have ok: "device_bindable (new_device t_seen t_reg d p) = ?ok"
    by (simp add: device_bindable_def new_device_def py_get_default_def split: option.split)
  have c1: "fault = None \<and> ?ok \<longrightarrow>
              map_of (db_devices ?s') d = Some (device_row (new_device t_seen t_reg d p)) \<and>
              device_id (device_row (new_device t_seen t_reg d p)) = d \<and>
              status (device_row (new_device t_seen t_reg d p)) = ''online'' \<and>
              length (filter (\<lambda>e. fst e = d) (db_devices ?s')) = 1"
  proof
    assume a: "fault = None \<and> ?ok"
    then have db: "db_devices ?s' =
        AList.delete d (db_devices s) @ [(d, device_row (new_device t_seen t_reg d p))]"
      by (simp add: register_device_db ok)
    have "filter (\<lambda>e. fst e = d) (AList.delete d (db_devices s)) = []"
      by (auto simp add: filter_empty_conv AList.delete_eq)
    then show "map_of (db_devices ?s') d = Some (device_row (new_device t_seen t_reg d p)) \<and>
              device_id (device_row (new_device t_seen t_reg d p)) = d \<and>
              status (device_row (new_device t_seen t_reg d p)) = ''online'' \<and>
              length (filter (\<lambda>e. fst e = d) (db_devices ?s')) = 1"
      by (simp add: db map_add_def AList.delete_conv')
  qed
  have c2: "fault \<noteq> None \<or> \<not> ?ok \<longrightarrow> db_devices ?s' = db_devices s"
    by (auto simp add: register_device_db ok)
  have c3: "pub_fault = None \<and> conf_gateway_id s = NotSet \<longrightarrow>
              published ?s' = published s @
                [(''devices/'' @ d @ ''/commands'',
                  \<lparr>command = ''registration_confirmed'', gateway_id = ''gateway_001'',
                   issued_at = t_msg\<rparr>)]"
    by (simp add: register_device_published gateway_id_of_def commands_topic_def)
  have c4: "\<forall>g. pub_fault = None \<and> conf_gateway_id s = Returns g \<longrightarrow>
              published ?s' = published s @
                [(''devices/'' @ d @ ''/commands'',
                  \<lparr>command = ''registration_confirmed'', gateway_id = g,
                   issued_at = t_msg\<rparr>)]"
    by (simp add: register_device_published gateway_id_of_def commands_topic_def)
  have c5: "(\<exists>e. conf_gateway_id s = Raises e) \<or> pub_fault \<noteq> None \<longrightarrow>
              published ?s' = published s"
    by (cases "conf_gateway_id s") (auto simp add: register_device_published gateway_id_of_def)
  show ?thesis
    by (rule exI [of _ ?s'])
      (rule conjI [OF run conjI [OF c1 conjI [OF c2 conjI [OF c3 conjI [OF c4 c5]]]]])
qed

theorem registration_persists_and_confirms_witness:
  "sample_registration ''device_id'' = Some (JStr ''d1'') \<and>
   map_option (\<lambda>s'. map_option status (map_of (db_devices s') ''d1''))
     (handle_device_registration 100 101 102 None None sample_registration configured_gateway) =
     Some (Some ''online'') \<and>
   map_option published
     (handle_device_registration 100 101 102 None None sample_registration configured_gateway) =
     Some [(''devices/d1/commands'',
            \<lparr>command = ''registration_confirmed'', gateway_id = ''gw-42'', issued_at = 102\<rparr>)] \<and>
   map_option published
     (handle_device_registration 100 101 102 None None sample_registration sample_gateway) =
     Some [(''devices/d1/commands'',
            \<lparr>command = ''registration_confirmed'', gateway_id = ''gateway_001'',
             issued_at = 102\<rparr>)]"
proof -
  have h: "sample_registration ''device_id'' = Some (JStr ''d1'')"
    by (simp add: sample_registration_def)
  have ok: "list_all (\<lambda>k. case sample_registration k of None \<Rightarrow> True | Some v \<Rightarrow> bindable v)
              [''device_type'', ''mac_address'', ''ip_address'', ''firmware_version'',
               ''capabilities'']"
    by (simp add: sample_registration_def)
  have conf: "conf_gateway_id configured_gateway = Returns ''gw-42''"
    and none: "published configured_gateway = []"
    by (simp_all add: configured_gateway_eq)
  from registration_persists_and_confirms
    [where p = sample_registration and d = "''d1''" and s = configured_gateway
       and t_seen = 100 and t_reg = 101 and t_msg = 102 and fault = None
       and pub_fault = None, OF h]
  obtain s' where run: "handle_device_registration 100 101 102 None None sample_registration
        configured_gateway = Some s'"
    and row': "list_all (\<lambda>k. case sample_registration k of None \<Rightarrow> True | Some v \<Rightarrow> bindable v)
              [''device_type'', ''mac_address'', ''ip_address'', ''firmware_version'',
               ''capabilities''] \<longrightarrow>
        map_of (db_devices s') ''d1'' =
        Some (device_row (new_device 100 101 ''d1'' sample_registration))"
    and pub': "None = (None :: string option) \<and>
         conf_gateway_id configured_gateway = Returns ''gw-42'' \<longrightarrow>
       published s' = published configured_gateway @
                [(''devices/'' @ ''d1'' @ ''/commands'',
                  \<lparr>command = ''registration_confirmed'', gateway_id = ''gw-42'',
                   issued_at = 102\<rparr>)]"
    by blast
  from row' ok have row: "map_of (db_devices s') ''d1'' =
        Some (device_row (new_device 100 101 ''d1'' sample_registration))"
    by (rule mp)
  from conf have "None = (None :: string option) \<and>
         conf_gateway_id configured_gateway = Returns ''gw-42''"
    by simp
  with pub' have pub: "published s' = published configured_gateway @
                [(''devices/'' @ ''d1'' @ ''/commands'',
                  \<lparr>command = ''registration_confirmed'', gateway_id = ''gw-42'',
                   issued_at = 102\<rparr>)]"
    by (rule mp)
  have c1: "map_option (\<lambda>s'. map_option status (map_of (db_devices s') ''d1''))
     (handle_device_registration 100 101 102 None None sample_registration configured_gateway) =
     Some (Some ''online'')"
    by (simp add: run row)
  have c2: "map_option published
     (handle_device_registration 100 101 102 None None sample_registration configured_gateway) =
     Some [(''devices/d1/commands'',
            \<lparr>command = ''registration_confirmed'', gateway_id = ''gw-42'', issued_at = 102\<rparr>)]"
    by (simp add: run pub none)
  have c3: "map_option published
     (handle_device_registration 100 101 102 None None sample_registration sample_gateway) =
     Some [(''devices/d1/commands'',
            \<lparr>command = ''registration_confirmed'', gateway_id = ''gateway_001'',
             issued_at = 102\<rparr>)]"
    using registered_once_run by (simp add: registered_once_eq)
  from h c1 c2 c3 show ?thesis by (intro conjI)
qed

text \<open>
  C8 as stated fails in four ways. A payload for \<open>d1\<close> whose \<open>capabilities\<close> is a
  list is refused by sqlite3: on a healthy store no row is saved (the confirmation is
  published). A payload whose \<open>device_id\<close> is a list raises TypeError at the store into
  the registry: nothing is published. With a configured gateway id that the lookup
  cannot interpolate, the sample payload is saved and nothing is published. When the
  client raises at the publish (the device id \<open>d+1\<close> puts a wildcard into the topic),
  the device is saved and nothing is published.
\<close>

theorem registration_counterexample:
  "map_option db_devices
     (handle_device_registration 100 101 102 None None listed_capabilities sample_gateway) =
     Some [] \<and>
   map_option (\<lambda>s'. map fst (published s'))
     (handle_device_registration 100 101 102 None None listed_capabilities sample_gateway) =
     Some [''devices/d1/commands''] \<and>
   map_option published
     (handle_device_registration 100 101 102 None None listed_device_id sample_gateway) =
     Some [] \<and>
   map_option db_devices
     (handle_device_registration 100 101 102 None None listed_device_id sample_gateway) =
     Some [] \<and>
   map_option published
     (handle_device_registration 100 101 102 None None sample_registration
        (sample_gateway\<lparr>conf_gateway_id := Raises ''gw%1''\<rparr>)) = Some [] \<and>
   map_option (\<lambda>s'. map fst (db_devices s'))
     (handle_device_registration 100 101 102 None None sample_registration
        (sample_gateway\<lparr>conf_gateway_id := Raises ''gw%1''\<rparr>)) = Some [''d1''] \<and>
   map_option published
     (handle_device_registration 100 101 102 None
        (Some ''Publish topic cannot contain wildcards.'') [''device_id'' \<mapsto> JStr ''d+1'']
        sample_gateway) = Some [] \<and>
   map_option (\<lambda>s'. map fst (db_devices s'))
     (handle_device_registration 100 101 102 None
        (Some ''Publish topic cannot contain wildcards.'') [''device_id'' \<mapsto> JStr ''d+1'']
        sample_gateway) = Some [''d+1'']"
  by (simp add: sample_gateway_eq run_defs listed_capabilities_def listed_device_id_def)



text \<open>
  C10. A telemetry message whose \<open>device_id\<close> field is present but falsy (the empty
  string, null, false, zero, an empty array or object) is treated as one without the
  field: it is dropped with the same warning, no Telemetry Record is created and the
  registry is as before.
\<close>

theorem telemetry_with_falsy_device_id_is_dropped:
  assumes "p ''device_id'' = Some v"
    and "\<not> truthy v"
    and "s' = handle_telemetry t_seen t_rec t_fwd fault running_loop p s"
  shows "db_telemetry s' = db_telemetry s \<and> devices s' = devices s \<and>
         db_devices s' = db_devices s \<and> cloud_tasks s' = cloud_tasks s \<and>
         logged s' = logged s @ [Log WARNING ''Telemetry message missing device_id'']"
proof -
  have "\<not> truthy (py_get p ''device_id'')" using assms(1,2) by (simp add: py_get_def)
  then have "s' = log_msg WARNING ''Telemetry message missing device_id'' s"
    unfolding assms(3) by (rule telemetry_dropped)
  then show ?thesis by (simp add: log_msg_def)
qed

theorem telemetry_with_falsy_device_id_is_dropped_witness:
  "[''device_id'' \<mapsto> JStr [], ''temperature'' \<mapsto> JFloat 21.5] ''device_id'' = Some (JStr []) \<and>
   \<not> truthy (JStr []) \<and>
   db_telemetry (handle_telemetry 400 401 402 None True
                   [''device_id'' \<mapsto> JStr [], ''temperature'' \<mapsto> JFloat 21.5]
                   registered_once) = [] \<and>
   devices (handle_telemetry 400 401 402 None True
              [''device_id'' \<mapsto> JStr [], ''temperature'' \<mapsto> JFloat 21.5]
              registered_once) = devices registered_once"
proof -
  have h1: "[''device_id'' \<mapsto> JStr [], ''temperature'' \<mapsto> JFloat 21.5] ''device_id'' =
            Some (JStr [])" by simp
  have h2: "\<not> truthy (JStr [])" by simp
  note drop =
    telemetry_with_falsy_device_id_is_dropped
      [where p = "[''device_id'' \<mapsto> JStr [], ''temperature'' \<mapsto> JFloat 21.5]"
       and v = "JStr []" and s = registered_once and t_seen = 400 and t_rec = 401
       and t_fwd = 402 and fault = None and running_loop = True, OF h1 h2 refl]
  from drop have "db_telemetry (handle_telemetry 400 401 402 None True
                   [''device_id'' \<mapsto> JStr [], ''temperature'' \<mapsto> JFloat 21.5]
                   registered_once) = []"
    by (simp add: registered_once_eq)
  moreover from drop have "devices (handle_telemetry 400 401 402 None True
              [''device_id'' \<mapsto> JStr [], ''temperature'' \<mapsto> JFloat 21.5]
              registered_once) = devices registered_once"
    by simp
  ultimately show ?thesis using h1 h2 by (intro conjI)
qed


end
